theory Spec2Isabelle
  imports Complex_Main
begin

section \<open>JavaScript values used by the audit engine\<close>

text \<open>
  Numbers. The engine only compares numbers and tests them for truthiness, so a number is
  its exact value, or one of the three special values a parse can give. Doubles are taken
  at their exact decimal value: the comparisons of the model agree with those of the
  engine except for decimal texts within one rounding step of a threshold.
\<close>

datatype jsnum = NaN | NegInf | Fin real | PosInf

text \<open>\<open>a < b\<close> of JavaScript: false as soon as one side is NaN.\<close>

fun js_less :: "jsnum \<Rightarrow> jsnum \<Rightarrow> bool" where
  "js_less NaN b = False"
| "js_less a NaN = False"
| "js_less NegInf NegInf = False"
| "js_less NegInf b = True"
| "js_less PosInf b = False"
| "js_less (Fin x) NegInf = False"
| "js_less (Fin x) (Fin y) = (x < y)"
| "js_less (Fin x) PosInf = True"

text \<open>\<open>a > b\<close> and \<open>a >= b\<close>.\<close>

definition js_greater :: "jsnum \<Rightarrow> jsnum \<Rightarrow> bool" where
  "js_greater a b = js_less b a"

definition js_ge :: "jsnum \<Rightarrow> jsnum \<Rightarrow> bool" where
  "js_ge a b = (a \<noteq> NaN \<and> b \<noteq> NaN \<and> \<not> js_less a b)"

text \<open>Truthiness of a number: NaN and zero are falsy.\<close>

definition num_truthy :: "jsnum \<Rightarrow> bool" where
  "num_truthy a = (a \<noteq> NaN \<and> a \<noteq> Fin 0)"

text \<open>
  Strings are lists of 8-bit code units. White space is what \<open>trim\<close>, \<open>parseInt\<close>,
  \<open>parseFloat\<close> and the regular expression class \<open>\s\<close> skip, within that range: tab,
  line feed, vertical tab, form feed, carriage return, space and no-break space.
\<close>

definition isWhiteSpace :: "char \<Rightarrow> bool" where
  "isWhiteSpace c = (c \<in> set [CHR 0x09, CHR 0x0A, CHR 0x0B, CHR 0x0C, CHR 0x0D, CHR 0x20, CHR 0xA0])"

definition isDigit :: "char \<Rightarrow> bool" where
  "isDigit c = (c \<in> set ''0123456789'')"

definition digitVal :: "char \<Rightarrow> nat" where
  "digitVal c = of_char c - of_char CHR ''0''"

definition isHexDigit :: "char \<Rightarrow> bool" where
  "isHexDigit c = (c \<in> set ''0123456789abcdefABCDEF'')"

definition hexVal :: "char \<Rightarrow> nat" where
  "hexVal c = (if isDigit c then digitVal c
               else if c \<in> set ''abcdef'' then of_char c - of_char CHR ''a'' + 10
               else of_char c - of_char CHR ''A'' + 10)"

text \<open>The value of a digit string in a radix, most significant digit first.\<close>

definition digitsVal :: "nat \<Rightarrow> (char \<Rightarrow> nat) \<Rightarrow> string \<Rightarrow> nat" where
  "digitsVal radix val ds = foldl (\<lambda>acc c. acc * radix + val c) 0 ds"

definition startsWith :: "string \<Rightarrow> string \<Rightarrow> bool" where
  "startsWith s p = (take (length p) s = p)"

definition trim :: "string \<Rightarrow> string" where
  "trim s = rev (dropWhile isWhiteSpace (rev (dropWhile isWhiteSpace s)))"

definition lowerChar :: "char \<Rightarrow> char" where
  "lowerChar c =
     (case map_of (zip ''ABCDEFGHIJKLMNOPQRSTUVWXYZ'' ''abcdefghijklmnopqrstuvwxyz'') c of
        Some l \<Rightarrow> l
      | None \<Rightarrow> c)"

definition toLowerCase :: "string \<Rightarrow> string" where
  "toLowerCase s = map lowerChar s"

text \<open>An optional sign in front of a numeral: whether it is a minus, and the rest.\<close>

definition signOf :: "string \<Rightarrow> bool \<times> string" where
  "signOf s = (case s of
      [] \<Rightarrow> (False, s)
    | c # r \<Rightarrow> if c = CHR ''-'' then (True, r) else if c = CHR ''+'' then (False, r) else (False, s))"

text \<open>
  \<open>parseInt(s)\<close> with no radix: leading white space, a sign, a \<open>0x\<close> prefix for radix 16,
  then the longest run of digits; NaN when that run is empty.
\<close>

definition parseInt :: "string \<Rightarrow> jsnum" where
  "parseInt s =
     (let (neg, u) = signOf (dropWhile isWhiteSpace s);
          hex = (startsWith u ''0x'' \<or> startsWith u ''0X'');
          v = (if hex then drop 2 u else u);
          ds = (if hex then takeWhile isHexDigit v else takeWhile isDigit v);
          n = (if hex then digitsVal 16 hexVal ds else digitsVal 10 digitVal ds)
      in if ds = [] then NaN
         else Fin (if neg then - real n else real n))"

text \<open>
  The exponent part of a decimal literal: \<open>e\<close> or \<open>E\<close>, an optional sign and at least one
  digit. Without the digits there is no exponent part and the literal ends before it.
\<close>

definition exponentOf :: "string \<Rightarrow> int" where
  "exponentOf s = (case s of
      [] \<Rightarrow> 0
    | c # r \<Rightarrow>
        if c = CHR ''e'' \<or> c = CHR ''E'' then
          (let (neg, u) = signOf r; ds = takeWhile isDigit u
           in if ds = [] then 0
              else if neg then - int (digitsVal 10 digitVal ds) else int (digitsVal 10 digitVal ds))
        else 0)"

definition scale10 :: "real \<Rightarrow> int \<Rightarrow> real" where
  "scale10 m e = (if 0 \<le> e then m * 10 ^ nat e else m / 10 ^ nat (- e))"

text \<open>
  \<open>parseFloat(s)\<close>: leading white space, a sign, then \<open>Infinity\<close> or the longest prefix that
  is a decimal literal (digits, a fraction, an exponent part); NaN when there is no digit.
\<close>

definition parseFloat :: "string \<Rightarrow> jsnum" where
  "parseFloat s =
     (let (neg, u) = signOf (dropWhile isWhiteSpace s)
      in if startsWith u ''Infinity'' then (if neg then NegInf else PosInf)
         else
           (let ip = takeWhile isDigit u;
                r1 = dropWhile isDigit u;
                dot = (r1 \<noteq> [] \<and> hd r1 = CHR ''.'');
                fp = (if dot then takeWhile isDigit (tl r1) else []);
                r2 = (if dot then dropWhile isDigit (tl r1) else r1);
                m = real (digitsVal 10 digitVal (ip @ fp)) / 10 ^ length fp;
                v = scale10 m (exponentOf r2)
            in if ip = [] \<and> fp = [] then NaN
               else Fin (if neg then - v else v)))"

section \<open>The page snapshot\<close>

text \<open>
  What \<open>window.getComputedStyle(element)\<close> reports, as far as the engine reads it. Every
  field is the text the platform gives.
\<close>

record style =
  display :: string
  visibility :: string
  opacity :: string
  pointerEvents :: string
  color :: string
  backgroundColor :: string
  fontSize :: string
  fontWeight :: string

text \<open>The result of \<open>element.getBoundingClientRect()\<close>.\<close>

record DOMRect =
  width :: real
  height :: real
  rtop :: real
  rbottom :: real
  rleft :: real
  rright :: real

text \<open>
  The properties of one element that the engine reads. \<open>localName\<close> is what a type selector
  is matched against; \<open>className\<close> is \<open>None\<close> where the property is not a string (an SVG
  element); \<open>innerText\<close> is \<open>None\<close> where it is undefined; \<open>disabled\<close> is whether
  \<open>el.disabled === true\<close>; attribute names are in the lower case the platform stores.
\<close>

record props =
  tagName :: string
  localName :: string
  elementId :: string
  className :: "string option"
  attributes :: "(string \<times> string) list"
  outerHTML :: string
  textContent :: string
  innerText :: "string option"
  disabled :: bool
  computedStyle :: style
  boundingClientRect :: DOMRect

datatype element = Element (props: props) (children: "element list")

text \<open>
  An element of the page is handed around together with its chain of ancestors, nearest
  first, so that \<open>parentElement\<close> can be followed. The document element is the one with no
  ancestor: for the elements of a page, \<open>el !== document.documentElement\<close> is
  \<open>ancestors \<noteq> []\<close>.
\<close>

type_synonym node = "element \<times> element list"

text \<open>The proper descendants of an element, in document order.\<close>

fun descendants :: "element list \<Rightarrow> element \<Rightarrow> node list" where
  "descendants anc (Element p cs) =
     concat (map (\<lambda>c. (c, Element p cs # anc) # descendants (Element p cs # anc) c) cs)"

definition getAttribute :: "element \<Rightarrow> string \<Rightarrow> string option" where
  "getAttribute e name = map_of (attributes (props e)) name"

definition hasAttribute :: "element \<Rightarrow> string \<Rightarrow> bool" where
  "hasAttribute e name = (getAttribute e name \<noteq> None)"

definition hasName :: "string \<Rightarrow> element \<Rightarrow> bool" where
  "hasName n e = (localName (props e) = n)"

datatype error = TypeError string | SyntaxError string | Thrown string

fun errorMessage :: "error \<Rightarrow> string" where
  "errorMessage (TypeError m) = m"
| "errorMessage (SyntaxError m) = m"
| "errorMessage (Thrown m) = m"

section \<open>Findings and reports\<close>

text \<open>
  The object \<open>ColorUtils.suggestContrastImprovements\<close> returns, in the shape of the
  fallback of the content script.
\<close>

datatype suggestions = Suggestions (currentRatio: jsnum) (suggestedRatio: jsnum)

text \<open>
  A message is a fixed text, or the contrast template with its two numbers (the measured
  ratio, which the engine prints with two decimals, and the required ratio). The details
  of a contrast finding are ratio, requiredRatio, fontSize, fontWeight, textColor,
  backgroundColor and suggestions, in this order. The printing of numbers is not modelled:
  the numbers themselves are kept.
\<close>

datatype message = Text string | InsufficientContrast jsnum jsnum

datatype details = Details jsnum jsnum jsnum jsnum string string suggestions

record finding =
  type :: string
  category :: string
  message :: message
  element :: "string option"
  selector :: "string option"
  details :: "details option"

record summary =
  total :: nat
  errors :: nat
  warnings :: nat

record report =
  url :: string
  timestamp :: string
  issues :: "finding list"
  summary :: summary

text \<open>
  The snapshot the engine runs against: the document element, the viewport, the location
  and the clock, and the helper modules the content script looks up at run time.
  \<open>A11yRuleUtils\<close> is \<open>None\<close> when the module (or its \<open>runAllChecks\<close>) is not
  available, and otherwise what a call of \<open>runAllChecks()\<close> does: it throws, or returns
  findings (none, for the fallback the content script installs when the rules table is
  not loaded). The two \<open>ColorUtils\<close> functions throw or return. \<open>cssEscaped\<close> is what
  \<open>document.querySelector\<close> does with a \<open>label[for="..."]\<close> selector whose value
  needs the CSS parser's escape handling: it throws a syntax error, or tells whether an
  element matches.
\<close>

record snapshot =
  documentElement :: element
  innerWidth :: real
  innerHeight :: real
  href :: string
  now :: string
  A11yRuleUtils :: "(error + finding list) option"
  calculateContrastRatio :: "string \<Rightarrow> string \<Rightarrow> error + jsnum"
  suggestContrastImprovements :: "string \<Rightarrow> string \<Rightarrow> jsnum \<Rightarrow> error + suggestions"
  cssEscaped :: "string \<Rightarrow> error + bool"

text \<open>All elements of the document, in document order, as \<open>document.querySelectorAll\<close> visits them.\<close>

definition allElements :: "snapshot \<Rightarrow> node list" where
  "allElements s = (documentElement s, []) # descendants [] (documentElement s)"

definition querySelectorAll :: "snapshot \<Rightarrow> (element \<Rightarrow> bool) \<Rightarrow> node list" where
  "querySelectorAll s matches = filter (\<lambda>n. matches (fst n)) (allElements s)"

text \<open>The local names of the elements of a query result, in its order.\<close>

definition localNames :: "node list \<Rightarrow> string list" where
  "localNames ns = map (\<lambda>n. localName (props (fst n))) ns"

text \<open>\<open>el.querySelector(sel)\<close> on an element: is there a matching proper descendant.\<close>

definition hasDescendant :: "element \<Rightarrow> (element \<Rightarrow> bool) \<Rightarrow> bool" where
  "hasDescendant e matches = (\<exists>n \<in> set (descendants [] e). matches (fst n))"

text \<open>
  \<open>document.body\<close>: the first child of the html element that is a body or a frameset,
  null when there is none.
\<close>

definition body :: "snapshot \<Rightarrow> node option" where
  "body s =
     (let root = documentElement s
      in if hasName ''html'' root
         then (case filter (\<lambda>c. hasName ''body'' c \<or> hasName ''frameset'' c) (children root) of
                 [] \<Rightarrow> None
               | b # _ \<Rightarrow> Some (b, [root]))
         else None)"

section \<open>Visibility filter\<close>

text \<open>
  What \<open>isElementVisible\<close> can be called with: nothing (null or undefined), an object
  that is not an element (with or without a \<open>getBoundingClientRect\<close> member, as a
  Range has one), or an element.
\<close>

datatype target = Absent | Foreign bool | Elem element

text \<open>
  The body of the \<open>try\<close> block. For an object that is not an element,
  \<open>window.getComputedStyle\<close> throws a type error.
\<close>

definition isElementVisible_try :: "snapshot \<Rightarrow> target \<Rightarrow> error + bool" where
  "isElementVisible_try s t =
     (case t of
        Absent \<Rightarrow> Inr False
      | Foreign hasRect \<Rightarrow>
          if \<not> hasRect then Inr False
          else Inl (TypeError ''parameter 1 is not of type Element'')
      | Elem e \<Rightarrow>
          (let rect = boundingClientRect (props e);
               style = computedStyle (props e)
           in Inr (\<not> (width rect = 0 \<and> height rect = 0) \<and>
                   display style \<noteq> ''none'' \<and>
                   visibility style \<noteq> ''hidden'' \<and>
                   opacity style \<noteq> ''0'' \<and>
                   rtop rect < innerHeight s \<and>
                   rbottom rect > 0 \<and>
                   rleft rect < innerWidth s \<and>
                   rright rect > 0)))"

definition isElementVisible :: "snapshot \<Rightarrow> target \<Rightarrow> bool" where
  "isElementVisible s t = (case isElementVisible_try s t of Inl e \<Rightarrow> False | Inr b \<Rightarrow> b)"

section \<open>Selector of an element\<close>

text \<open>\<open>className.split(' ')[0]\<close>: the text before the first space.\<close>

definition firstClassOf :: "string \<Rightarrow> string" where
  "firstClassOf cn = takeWhile (\<lambda>c. c \<noteq> CHR '' '') cn"

definition getSelector :: "element \<Rightarrow> string" where
  "getSelector e =
     (let p = props e
      in if tagName p = [] then ''unknown''
         else if elementId p \<noteq> [] then ''#'' @ elementId p
         else (case className p of
                 Some cn \<Rightarrow>
                   if cn \<noteq> [] \<and> firstClassOf cn \<noteq> []
                   then toLowerCase (tagName p) @ ''.'' @ firstClassOf cn
                   else toLowerCase (tagName p)
               | None \<Rightarrow> toLowerCase (tagName p)))"

section \<open>Colour resolver\<close>

text \<open>
  The regular expression \<open>rgba\((\d+),\s*(\d+),\s*(\d+),\s*([\d.]+)\)\<close>. Each greedy
  run is followed by a character outside its class, so the match at a position is found
  without backtracking; \<open>match\<close> takes the leftmost position that matches.
\<close>

definition matchDigits :: "string \<Rightarrow> string option" where
  "matchDigits s = (if takeWhile isDigit s = [] then None else Some (dropWhile isDigit s))"

definition matchChar :: "char \<Rightarrow> string \<Rightarrow> string option" where
  "matchChar c s = (case s of [] \<Rightarrow> None | x # r \<Rightarrow> if x = c then Some r else None)"

text \<open>\<open>(\d+),\s*\<close>: one colour component, its comma and the white space after it.\<close>

definition matchComponent :: "string \<Rightarrow> string option" where
  "matchComponent s =
     (case matchDigits s of
        None \<Rightarrow> None
      | Some r \<Rightarrow> (case matchChar CHR '','' r of
                     None \<Rightarrow> None
                   | Some r' \<Rightarrow> Some (dropWhile isWhiteSpace r')))"

definition isAlphaChar :: "char \<Rightarrow> bool" where
  "isAlphaChar c = (isDigit c \<or> c = CHR ''.'')"

text \<open>The fourth group when the expression matches at the start of the text.\<close>

definition matchRgbaAt :: "string \<Rightarrow> string option" where
  "matchRgbaAt s =
     (if startsWith s ''rgba('' then
        (case matchComponent (drop 5 s) of
           None \<Rightarrow> None
         | Some r1 \<Rightarrow>
        (case matchComponent r1 of
           None \<Rightarrow> None
         | Some r2 \<Rightarrow>
        (case matchComponent r2 of
           None \<Rightarrow> None
         | Some r3 \<Rightarrow>
             if takeWhile isAlphaChar r3 \<noteq> [] \<and> startsWith (dropWhile isAlphaChar r3) '')''
             then Some (takeWhile isAlphaChar r3)
             else None)))
      else None)"

fun matchRgba :: "string \<Rightarrow> string option" where
  "matchRgba [] = None"
| "matchRgba (c # cs) =
     (case matchRgbaAt (c # cs) of Some a \<Rightarrow> Some a | None \<Rightarrow> matchRgba cs)"

definition getAlphaFromColor :: "string \<Rightarrow> jsnum" where
  "getAlphaFromColor colorText =
     (if startsWith colorText ''rgba'' then
        (case matchRgba colorText of
           Some a \<Rightarrow> parseFloat a
         | None \<Rightarrow> Fin 1)
      else Fin 1)"

text \<open>
  Whether the loop of \<open>getBackgroundColor\<close> takes the background of the current element,
  and the \<open>backgroundColor\<close> of the computed style of an element.
\<close>

definition opaqueEnough :: "string \<Rightarrow> bool" where
  "opaqueEnough bgColor =
     (bgColor \<noteq> [] \<and> bgColor \<noteq> ''rgba(0, 0, 0, 0)'' \<and> bgColor \<noteq> ''transparent'' \<and>
      js_greater (getAlphaFromColor bgColor) (Fin 0.1))"

text \<open>
  The \<open>while\<close> loop: from the current element upwards, as long as the current element is
  not the document element. The result is the variable \<open>backgroundColor\<close> after the loop.
\<close>

definition backgroundOf :: "element \<Rightarrow> string" where
  "backgroundOf e = style.backgroundColor (computedStyle (props e))"

fun getBackgroundColor_loop :: "element \<Rightarrow> element list \<Rightarrow> string option" where
  "getBackgroundColor_loop currentElement [] = None"
| "getBackgroundColor_loop currentElement (parent # anc) =
     (let bgColor = backgroundOf currentElement
      in if opaqueEnough bgColor then Some bgColor
         else getBackgroundColor_loop parent anc)"

definition getBackgroundColor :: "node \<Rightarrow> string" where
  "getBackgroundColor n =
     (case getBackgroundColor_loop (fst n) (snd n) of
        Some c \<Rightarrow> if c \<noteq> [] then c else ''rgb(255, 255, 255)''
      | None \<Rightarrow> ''rgb(255, 255, 255)'')"

section \<open>Contrast evaluator\<close>

record contrastResult =
  ratio :: jsnum
  fontSize :: jsnum
  fontWeight :: jsnum
  requiredAARatio :: jsnum
  requiredAAARatio :: jsnum
  meetsAA :: bool
  meetsAAA :: bool
  textColor :: string
  backgroundColor :: string
  suggestions :: suggestions

definition isLargeText :: "jsnum \<Rightarrow> jsnum \<Rightarrow> bool" where
  "isLargeText px weight =
     (js_ge px (Fin 24) \<or> (js_ge px (Fin 18.66) \<and> js_ge weight (Fin 700)))"

definition getRequiredContrastRatio :: "jsnum \<Rightarrow> jsnum \<Rightarrow> jsnum" where
  "getRequiredContrastRatio px weight =
     (if isLargeText px weight then Fin 3 else Fin 4.5)"

text \<open>\<open>parseInt(w) || 400\<close>.\<close>

definition weightOr400 :: "string \<Rightarrow> jsnum" where
  "weightOr400 w = (if num_truthy (parseInt w) then parseInt w else Fin 400)"

text \<open>
  The body of the \<open>try\<close> block of \<open>getContrastRatioForElement\<close>: an error of one of the
  \<open>ColorUtils\<close> calls, null (\<open>None\<close>) when a colour is missing, or the result.
\<close>

definition getContrastRatioForElement_try :: "snapshot \<Rightarrow> node \<Rightarrow> error + contrastResult option" where
  "getContrastRatioForElement_try s n =
     (let st = computedStyle (props (fst n));
          fg = color st;
          bg = getBackgroundColor n
      in if fg = [] \<or> bg = [] then Inr None
         else
           (case calculateContrastRatio s fg bg of
              Inl e \<Rightarrow> Inl e
            | Inr contrastRatio \<Rightarrow>
                (let px = parseFloat (style.fontSize st);
                     weight = weightOr400 (style.fontWeight st);
                     requiredAA = getRequiredContrastRatio px weight;
                     requiredAAA = (if requiredAA = Fin 3 then Fin 4.5 else Fin 7)
                 in (case suggestContrastImprovements s fg bg requiredAA of
                       Inl e \<Rightarrow> Inl e
                     | Inr sugg \<Rightarrow>
                         Inr (Some \<lparr>ratio = contrastRatio,
                                    fontSize = px,
                                    fontWeight = weight,
                                    requiredAARatio = requiredAA,
                                    requiredAAARatio = requiredAAA,
                                    meetsAA = js_ge contrastRatio requiredAA,
                                    meetsAAA = js_ge contrastRatio requiredAAA,
                                    textColor = fg,
                                    backgroundColor = bg,
                                    suggestions = sugg\<rparr>)))))"

definition getContrastRatioForElement :: "snapshot \<Rightarrow> node \<Rightarrow> contrastResult option" where
  "getContrastRatioForElement s n =
     (case getContrastRatioForElement_try s n of Inl e \<Rightarrow> None | Inr r \<Rightarrow> r)"

section \<open>Rule checks\<close>

text \<open>\<open>el.outerHTML.slice(0, 100)\<close>.\<close>

definition snippet :: "element \<Rightarrow> string" where
  "snippet e = take 100 (outerHTML (props e))"

text \<open>
  The two shapes of the object literals the checks push: a finding about an element, with
  its snippet and selector, and a finding about the page, where both are null.
\<close>

definition elementIssue :: "string \<Rightarrow> string \<Rightarrow> string \<Rightarrow> element \<Rightarrow> finding" where
  "elementIssue ty cat msg e =
     \<lparr>type = ty, category = cat, message = Text msg,
      element = Some (snippet e), selector = Some (getSelector e), details = None\<rparr>"

definition pageIssue :: "string \<Rightarrow> string \<Rightarrow> string \<Rightarrow> finding" where
  "pageIssue ty cat msg =
     \<lparr>type = ty, category = cat, message = Text msg,
      element = None, selector = None, details = None\<rparr>"

text \<open>Whether \<open>el.getAttribute(name)\<close> is truthy: present and not empty.\<close>

definition attrTruthy :: "element \<Rightarrow> string \<Rightarrow> bool" where
  "attrTruthy e name = (case getAttribute e name of Some v \<Rightarrow> v \<noteq> [] | None \<Rightarrow> False)"

subsection \<open>Contrast\<close>

text \<open>\<open>element.textContent || element.innerText || ''\<close>.\<close>

definition textOf :: "element \<Rightarrow> string" where
  "textOf e =
     (if textContent (props e) \<noteq> [] then textContent (props e)
      else (case innerText (props e) of Some t \<Rightarrow> t | None \<Rightarrow> []))"

text \<open>
  The \<open>for\<close> loop of \<open>getTextElements\<close> over the remaining elements, with the array
  \<open>elements\<close> collected so far.
\<close>

fun getTextElements_loop :: "snapshot \<Rightarrow> node list \<Rightarrow> node list \<Rightarrow> node list" where
  "getTextElements_loop s [] elements = elements"
| "getTextElements_loop s (n # rest) elements =
     (if \<not> isElementVisible s (Elem (fst n)) then getTextElements_loop s rest elements
      else
        (let elements' = (if length (trim (textOf (fst n))) > 0 then elements @ [n] else elements)
         in if length elements' > 1500 then elements'
            else getTextElements_loop s rest elements'))"

text \<open>
  The body of the \<open>try\<close> block: reading \<open>document.body.getElementsByTagName\<close> throws
  when the document has no body.
\<close>

definition getTextElements_try :: "snapshot \<Rightarrow> error + node list" where
  "getTextElements_try s =
     (case body s of
        None \<Rightarrow> Inl (TypeError ''document.body is null'')
      | Some b \<Rightarrow> Inr (getTextElements_loop s (descendants (snd b) (fst b)) []))"

definition getTextElements :: "snapshot \<Rightarrow> node list" where
  "getTextElements s = (case getTextElements_try s of Inl e \<Rightarrow> [] | Inr es \<Rightarrow> es)"

text \<open>What the callback of \<open>checkColorContrast\<close> pushes for one element.\<close>

definition contrastIssue :: "snapshot \<Rightarrow> node \<Rightarrow> finding list" where
  "contrastIssue s n =
     (case getContrastRatioForElement s n of
        None \<Rightarrow> []
      | Some r \<Rightarrow>
          if \<not> meetsAA r then
            [\<lparr>type = ''error'', category = ''contrast'',
              message = InsufficientContrast (ratio r) (requiredAARatio r),
              element = Some (snippet (fst n)), selector = Some (getSelector (fst n)),
              details = Some (Details (ratio r) (requiredAARatio r) (fontSize r) (fontWeight r)
                                      (textColor r) (backgroundColor r) (suggestions r))\<rparr>]
          else [])"

text \<open>The elements the contrast check evaluates: \<open>getTextElements().slice(0, 1000)\<close>.\<close>

definition contrastCandidates :: "snapshot \<Rightarrow> node list" where
  "contrastCandidates s = take 1000 (getTextElements s)"

definition checkColorContrast :: "snapshot \<Rightarrow> finding list" where
  "checkColorContrast s = concat (map (contrastIssue s) (contrastCandidates s))"

subsection \<open>ARIA\<close>

definition isValidAriaRole :: "string \<Rightarrow> bool" where
  "isValidAriaRole role =
     (role \<in> set [''button'', ''checkbox'', ''dialog'', ''gridcell'', ''link'', ''listbox'',
                  ''option'', ''progressbar'', ''radio'', ''slider'', ''tab'', ''tabpanel'',
                  ''textbox'', ''menu'', ''menubar'', ''menuitem'', ''navigation'', ''banner'',
                  ''main'', ''complementary'', ''contentinfo'', ''search'', ''form''])"

definition ariaLabelIssue :: "snapshot \<Rightarrow> element \<Rightarrow> finding list" where
  "ariaLabelIssue s e =
     (if \<not> isElementVisible s (Elem e) then []
      else
        (let hasText = (textContent (props e) \<noteq> [] \<and> trim (textContent (props e)) \<noteq> []);
             hasAltImage = hasDescendant e (\<lambda>d. hasName ''img'' d \<and> hasAttribute d ''alt'')
         in if \<not> hasText \<and> \<not> hasAltImage
            then [elementIssue ''warning'' ''aria''
                    ''Element with aria-label without visible text content'' e]
            else []))"

definition roleIssue :: "element \<Rightarrow> finding list" where
  "roleIssue e =
     (case getAttribute e ''role'' of
        None \<Rightarrow> []
      | Some role \<Rightarrow>
          if role \<noteq> [] \<and> \<not> isValidAriaRole role
          then [elementIssue ''warning'' ''aria'' (''Invalid ARIA role: '' @ role) e]
          else [])"

definition checkAriaAttributes :: "snapshot \<Rightarrow> finding list" where
  "checkAriaAttributes s =
     concat (map (\<lambda>n. ariaLabelIssue s (fst n)) (querySelectorAll s (\<lambda>e. hasAttribute e ''aria-label'')))
     @ concat (map (\<lambda>n. roleIssue (fst n)) (querySelectorAll s (\<lambda>e. hasAttribute e ''role'')))"

subsection \<open>Keyboard\<close>

text \<open>\<open>parseInt(el.getAttribute('tabindex'))\<close>; a missing attribute reads as null, which parses to NaN.\<close>

definition tabIndexOf :: "element \<Rightarrow> jsnum" where
  "tabIndexOf e = (case getAttribute e ''tabindex'' of Some v \<Rightarrow> parseInt v | None \<Rightarrow> NaN)"

definition tabindexIssue :: "snapshot \<Rightarrow> element \<Rightarrow> finding list" where
  "tabindexIssue s e =
     (if \<not> isElementVisible s (Elem e) then []
      else if js_less (tabIndexOf e) (Fin (- 1))
      then [elementIssue ''error'' ''keyboard'' ''Invalid tabindex value'' e]
      else [])"

definition isInteractive :: "element \<Rightarrow> bool" where
  "isInteractive e =
     (hasName ''button'' e \<or> hasName ''a'' e \<or> hasName ''input'' e \<or> hasName ''select'' e \<or>
      hasName ''textarea'' e \<or> hasAttribute e ''onclick'')"

definition interactiveIssue :: "snapshot \<Rightarrow> element \<Rightarrow> finding list" where
  "interactiveIssue s e =
     (if \<not> isElementVisible s (Elem e) then []
      else if getAttribute e ''tabindex'' = None \<and> \<not> disabled (props e) then
        (let st = computedStyle (props e)
         in if pointerEvents st \<noteq> ''none'' \<and> display st \<noteq> ''none''
            then [elementIssue ''warning'' ''keyboard''
                    ''Interactive element may not be keyboard accessible'' e]
            else [])
      else [])"

definition checkKeyboardNavigation :: "snapshot \<Rightarrow> finding list" where
  "checkKeyboardNavigation s =
     concat (map (\<lambda>n. tabindexIssue s (fst n)) (querySelectorAll s (\<lambda>e. hasAttribute e ''tabindex'')))
     @ concat (map (\<lambda>n. interactiveIssue s (fst n)) (querySelectorAll s isInteractive))"

subsection \<open>Semantics\<close>

definition isDivButton :: "element \<Rightarrow> bool" where
  "isDivButton e =
     (hasName ''div'' e \<and> (hasAttribute e ''onclick'' \<or> getAttribute e ''role'' = Some ''button''))"

definition divButtonIssue :: "snapshot \<Rightarrow> element \<Rightarrow> finding list" where
  "divButtonIssue s e =
     (if \<not> isElementVisible s (Elem e) then []
      else [elementIssue ''warning'' ''semantics''
              ''Using div instead of button for interactive element'' e])"

definition layoutTableIssue :: "element \<Rightarrow> finding list" where
  "layoutTableIssue e =
     (if \<not> hasDescendant e (hasName ''th'') \<and> \<not> attrTruthy e ''summary''
      then [elementIssue ''warning'' ''semantics'' ''Possible table usage for layout'' e]
      else [])"

definition checkSemanticMarkup :: "snapshot \<Rightarrow> finding list" where
  "checkSemanticMarkup s =
     concat (map (\<lambda>n. divButtonIssue s (fst n)) (querySelectorAll s isDivButton))
     @ concat (map (\<lambda>n. layoutTableIssue (fst n))
                 (querySelectorAll s (\<lambda>e. hasName ''table'' e \<and> \<not> hasAttribute e ''role'')))"

subsection \<open>Language\<close>

text \<open>
  The finding that \<open>checkLanguage\<close> and the basic checks push when the \<open>lang\<close> attribute
  of the document element is missing or empty.
\<close>

definition langIssue :: "snapshot \<Rightarrow> finding list" where
  "langIssue s =
     (if \<not> attrTruthy (documentElement s) ''lang''
      then [\<lparr>type = ''error'', category = ''language'',
             message = Text ''Missing lang attribute on html element'',
             element = Some (snippet (documentElement s)), selector = Some ''html'',
             details = None\<rparr>]
      else [])"

definition checkLanguage :: "snapshot \<Rightarrow> finding list" where
  "checkLanguage s = langIssue s"

subsection \<open>Basic checks\<close>

definition imageIssue :: "snapshot \<Rightarrow> element \<Rightarrow> finding list" where
  "imageIssue s e =
     (if isElementVisible s (Elem e)
      then [elementIssue ''error'' ''images'' ''Image missing alt attribute'' e]
      else [])"

text \<open>The headings block of \<open>runBasicChecks\<close>: it looks for \<open>h1\<close> elements.\<close>

definition basicHeadingsIssue :: "snapshot \<Rightarrow> finding list" where
  "basicHeadingsIssue s =
     (if length (querySelectorAll s (hasName ''h1'')) = 0
      then [pageIssue ''warning'' ''headings'' ''No H1 heading found'']
      else [])"

text \<open>
  \<open>input[type="text"], input[type="email"], input[type="password"], textarea\<close>. In an
  HTML document the value of \<open>type\<close> is compared without regard to case.
\<close>

definition isTextInput :: "element \<Rightarrow> bool" where
  "isTextInput e =
     ((hasName ''input'' e \<and>
       (case getAttribute e ''type'' of
          Some t \<Rightarrow> toLowerCase t \<in> set [''text'', ''email'', ''password'']
        | None \<Rightarrow> False))
      \<or> hasName ''textarea'' e)"

text \<open>
  \<open>document.querySelector(`label[for="${id}"]`)\<close>, as a truth value. A value without
  quote, backslash, line break or null character stands for itself inside the quotes, and
  the selector matches the labels whose \<open>for\<close> attribute is that value. For any other
  value the outcome is the platform's.
\<close>

definition plainCssText :: "string \<Rightarrow> bool" where
  "plainCssText v =
     (\<forall>c \<in> set v. c \<notin> set [CHR 0x22, CHR 0x5C, CHR 0x0A, CHR 0x0C, CHR 0x0D, CHR 0x00])"

definition hasLabelFor :: "snapshot \<Rightarrow> string \<Rightarrow> error + bool" where
  "hasLabelFor s v =
     (if plainCssText v
      then Inr (querySelectorAll s (\<lambda>e. hasName ''label'' e \<and> getAttribute e ''for'' = Some v) \<noteq> [])
      else cssEscaped s v)"

text \<open>
  Whether a text input has its label, the negation of
  \<open>!input.id || !document.querySelector(...)\<close>: an input without id has none, and the
  query is not made for it.
\<close>

definition inputLabelled :: "snapshot \<Rightarrow> element \<Rightarrow> error + bool" where
  "inputLabelled s e =
     (if elementId (props e) = [] then Inr False else hasLabelFor s (elementId (props e)))"

text \<open>
  The loop over the text inputs: the findings pushed, and the error if a label query threw
  (the loop ends there).
\<close>

fun formsLoop :: "snapshot \<Rightarrow> node list \<Rightarrow> finding list \<times> error option" where
  "formsLoop s [] = ([], None)"
| "formsLoop s (n # rest) =
     (case inputLabelled s (fst n) of
        Inl e \<Rightarrow> ([], Some e)
      | Inr labelled \<Rightarrow>
          ((if \<not> labelled
            then [elementIssue ''warning'' ''forms'' ''Input without associated label'' (fst n)]
            else []) @ fst (formsLoop s rest),
           snd (formsLoop s rest)))"

text \<open>The body of the \<open>try\<close> block of \<open>runBasicChecks\<close>: the findings pushed and the error thrown, if any.\<close>

definition runBasicChecks_try :: "snapshot \<Rightarrow> finding list \<times> error option" where
  "runBasicChecks_try s =
     (let images = concat (map (\<lambda>n. imageIssue s (fst n))
                     (querySelectorAll s (\<lambda>e. hasName ''img'' e \<and> \<not> hasAttribute e ''alt'')));
          forms = formsLoop s (querySelectorAll s isTextInput)
      in (images @ langIssue s @ basicHeadingsIssue s @ fst forms, snd forms))"

definition runBasicChecks :: "snapshot \<Rightarrow> finding list" where
  "runBasicChecks s =
     (case snd (runBasicChecks_try s) of
        None \<Rightarrow> fst (runBasicChecks_try s)
      | Some e \<Rightarrow> fst (runBasicChecks_try s) @
                  [pageIssue ''error'' ''system'' (''Basic check error: '' @ errorMessage e)])"

section \<open>The entry point\<close>

text \<open>The checks that run after the rule utility or the basic checks.\<close>

definition specializedChecks :: "snapshot \<Rightarrow> finding list" where
  "specializedChecks s =
     checkColorContrast s @ checkAriaAttributes s @ checkKeyboardNavigation s @
     checkSemanticMarkup s @ checkLanguage s"

text \<open>The body of the \<open>try\<close> block of \<open>runA11yChecks\<close>: the findings pushed and the error thrown, if any.\<close>

definition runA11yChecks_try :: "snapshot \<Rightarrow> finding list \<times> error option" where
  "runA11yChecks_try s =
     (case A11yRuleUtils s of
        Some (Inl e) \<Rightarrow> ([], Some e)
      | Some (Inr ruleIssues) \<Rightarrow> (ruleIssues @ specializedChecks s, None)
      | None \<Rightarrow> (runBasicChecks s @ specializedChecks s, None))"

definition summarize :: "finding list \<Rightarrow> summary" where
  "summarize is =
     \<lparr>total = length is,
      errors = length (filter (\<lambda>i. type i = ''error'') is),
      warnings = length (filter (\<lambda>i. type i = ''warning'') is)\<rparr>"

definition runA11yChecks :: "snapshot \<Rightarrow> report" where
  "runA11yChecks s =
     (let is = (case snd (runA11yChecks_try s) of
                  None \<Rightarrow> fst (runA11yChecks_try s)
                | Some e \<Rightarrow> fst (runA11yChecks_try s) @
                    [pageIssue ''error'' ''system'' (''Check execution error: '' @ errorMessage e)])
      in \<lparr>url = href s, timestamp = now s, issues = is, summary = summarize is\<rparr>)"

text \<open>
  \<open>runA11yChecks\<close> above is the entry point for a rule module that, when it throws,
  throws a value whose \<open>message\<close> can be read, and that returns an array of finding
  objects. The entry point itself reads more: its handler reads \<open>error.message\<close> of
  whatever was thrown, and the summary, after the \<open>try\<close> block, reads \<open>i.type\<close> of every
  entry of the array. A thrown value is null or undefined, or any other value, given as
  the error whose message is the text \<open>error.message\<close> prints (\<open>undefined\<close> for a value
  without one). An entry of the array the rule module returns is a finding, or null or
  undefined (\<open>None\<close>).
\<close>

datatype thrown = Nullish | Object error

datatype ruleCall = NoModule | CallThrows thrown | CallReturns "finding option list"

text \<open>The rule module of a snapshot, as such a call.\<close>

definition ruleCallOf :: "snapshot \<Rightarrow> ruleCall" where
  "ruleCallOf s =
     (case A11yRuleUtils s of
        None \<Rightarrow> NoModule
      | Some (Inl e) \<Rightarrow> CallThrows (Object e)
      | Some (Inr rs) \<Rightarrow> CallReturns (map Some rs))"

text \<open>The body of the \<open>try\<close> block: the entries pushed and the value thrown, if any.\<close>

definition runA11yChecks_entry_try :: "snapshot \<Rightarrow> ruleCall \<Rightarrow> finding option list \<times> thrown option" where
  "runA11yChecks_entry_try s m =
     (case m of
        CallThrows t \<Rightarrow> ([], Some t)
      | CallReturns ruleIssues \<Rightarrow> (ruleIssues @ map Some (specializedChecks s), None)
      | NoModule \<Rightarrow> (map Some (runBasicChecks s @ specializedChecks s), None))"

text \<open>
  The handler: reading \<open>message\<close> of null or undefined throws, and nothing catches it;
  otherwise the system finding is pushed.
\<close>

definition runA11yChecks_entry_catch :: "finding option list \<Rightarrow> thrown option \<Rightarrow> error + finding option list" where
  "runA11yChecks_entry_catch pushed t =
     (case t of
        None \<Rightarrow> Inr pushed
      | Some Nullish \<Rightarrow> Inl (TypeError ''Cannot read properties of null (reading message)'')
      | Some (Object e) \<Rightarrow>
          Inr (pushed @
               [Some (pageIssue ''error'' ''system'' (''Check execution error: '' @ errorMessage e))]))"

text \<open>
  The entry point with such a rule module: the error that leaves it, or the report. The
  two filters of the summary read \<open>type\<close> of every entry and throw at a null one.
\<close>

definition runA11yChecks_entry :: "snapshot \<Rightarrow> ruleCall \<Rightarrow> error + report" where
  "runA11yChecks_entry s m =
     (case runA11yChecks_entry_catch (fst (runA11yChecks_entry_try s m))
             (snd (runA11yChecks_entry_try s m)) of
        Inl err \<Rightarrow> Inl err
      | Inr entries \<Rightarrow>
          (case those entries of
             None \<Rightarrow> Inl (TypeError ''Cannot read properties of null (reading type)'')
           | Some is \<Rightarrow>
               Inr \<lparr>url = href s, timestamp = now s, issues = is, summary = summarize is\<rparr>))"

section \<open>The simple checker\<close>

text \<open>
  The content script of the simple checker has an entry point of the same name, with no
  \<open>try\<close> block anywhere. Its messages are Cyrillic texts, given here as the bytes of
  their UTF-8 form: an image without alt attribute, no headings on the page, an element
  with aria-label without visible text content, an incorrect tabindex value, a div used in
  place of a button.
\<close>

definition noAltMessage :: string where
  "noAltMessage =
     [CHR 0xD0, CHR 0x98, CHR 0xD0, CHR 0xB7, CHR 0xD0, CHR 0xBE, CHR 0xD0, CHR 0xB1,
      CHR 0xD1, CHR 0x80, CHR 0xD0, CHR 0xB0, CHR 0xD0, CHR 0xB6, CHR 0xD0, CHR 0xB5,
      CHR 0xD0, CHR 0xBD, CHR 0xD0, CHR 0xB8, CHR 0xD0, CHR 0xB5, CHR 0x20, CHR 0xD0,
      CHR 0xB1, CHR 0xD0, CHR 0xB5, CHR 0xD0, CHR 0xB7, CHR 0x20, CHR 0xD0, CHR 0xB0,
      CHR 0xD1, CHR 0x82, CHR 0xD1, CHR 0x80, CHR 0xD0, CHR 0xB8, CHR 0xD0, CHR 0xB1,
      CHR 0xD1, CHR 0x83, CHR 0xD1, CHR 0x82, CHR 0xD0, CHR 0xB0, CHR 0x20, CHR 0x61,
      CHR 0x6C, CHR 0x74]"

definition noHeadingsMessage :: string where
  "noHeadingsMessage =
     [CHR 0xD0, CHR 0x9D, CHR 0xD0, CHR 0xB0, CHR 0x20, CHR 0xD1, CHR 0x81, CHR 0xD1,
      CHR 0x82, CHR 0xD1, CHR 0x80, CHR 0xD0, CHR 0xB0, CHR 0xD0, CHR 0xBD, CHR 0xD0,
      CHR 0xB8, CHR 0xD1, CHR 0x86, CHR 0xD0, CHR 0xB5, CHR 0x20, CHR 0xD0, CHR 0xBE,
      CHR 0xD1, CHR 0x82, CHR 0xD1, CHR 0x81, CHR 0xD1, CHR 0x83, CHR 0xD1, CHR 0x82,
      CHR 0xD1, CHR 0x81, CHR 0xD1, CHR 0x82, CHR 0xD0, CHR 0xB2, CHR 0xD1, CHR 0x83,
      CHR 0xD1, CHR 0x8E, CHR 0xD1, CHR 0x82, CHR 0x20, CHR 0xD0, CHR 0xB7, CHR 0xD0,
      CHR 0xB0, CHR 0xD0, CHR 0xB3, CHR 0xD0, CHR 0xBE, CHR 0xD0, CHR 0xBB, CHR 0xD0,
      CHR 0xBE, CHR 0xD0, CHR 0xB2, CHR 0xD0, CHR 0xBA, CHR 0xD0, CHR 0xB8]"

definition ariaLabelMessage :: string where
  "ariaLabelMessage =
     [CHR 0xD0, CHR 0xAD, CHR 0xD0, CHR 0xBB, CHR 0xD0, CHR 0xB5, CHR 0xD0, CHR 0xBC,
      CHR 0xD0, CHR 0xB5, CHR 0xD0, CHR 0xBD, CHR 0xD1, CHR 0x82, CHR 0x20, CHR 0xD1,
      CHR 0x81, CHR 0x20, CHR 0x61, CHR 0x72, CHR 0x69, CHR 0x61, CHR 0x2D, CHR 0x6C,
      CHR 0x61, CHR 0x62, CHR 0x65, CHR 0x6C, CHR 0x20, CHR 0xD0, CHR 0xB1, CHR 0xD0,
      CHR 0xB5, CHR 0xD0, CHR 0xB7, CHR 0x20, CHR 0xD0, CHR 0xB2, CHR 0xD0, CHR 0xB8,
      CHR 0xD0, CHR 0xB4, CHR 0xD0, CHR 0xB8, CHR 0xD0, CHR 0xBC, CHR 0xD0, CHR 0xBE,
      CHR 0xD0, CHR 0xB3, CHR 0xD0, CHR 0xBE, CHR 0x20, CHR 0xD1, CHR 0x82, CHR 0xD0,
      CHR 0xB5, CHR 0xD0, CHR 0xBA, CHR 0xD1, CHR 0x81, CHR 0xD1, CHR 0x82, CHR 0xD0,
      CHR 0xBE, CHR 0xD0, CHR 0xB2, CHR 0xD0, CHR 0xBE, CHR 0xD0, CHR 0xB3, CHR 0xD0,
      CHR 0xBE, CHR 0x20, CHR 0xD1, CHR 0x81, CHR 0xD0, CHR 0xBE, CHR 0xD0, CHR 0xB4,
      CHR 0xD0, CHR 0xB5, CHR 0xD1, CHR 0x80, CHR 0xD0, CHR 0xB6, CHR 0xD0, CHR 0xB8,
      CHR 0xD0, CHR 0xBC, CHR 0xD0, CHR 0xBE, CHR 0xD0, CHR 0xB3, CHR 0xD0, CHR 0xBE]"

definition badTabindexMessage :: string where
  "badTabindexMessage =
     [CHR 0xD0, CHR 0x9D, CHR 0xD0, CHR 0xB5, CHR 0xD0, CHR 0xBA, CHR 0xD0, CHR 0xBE,
      CHR 0xD1, CHR 0x80, CHR 0xD1, CHR 0x80, CHR 0xD0, CHR 0xB5, CHR 0xD0, CHR 0xBA,
      CHR 0xD1, CHR 0x82, CHR 0xD0, CHR 0xBD, CHR 0xD0, CHR 0xBE, CHR 0xD0, CHR 0xB5,
      CHR 0x20, CHR 0xD0, CHR 0xB7, CHR 0xD0, CHR 0xBD, CHR 0xD0, CHR 0xB0, CHR 0xD1,
      CHR 0x87, CHR 0xD0, CHR 0xB5, CHR 0xD0, CHR 0xBD, CHR 0xD0, CHR 0xB8, CHR 0xD0,
      CHR 0xB5, CHR 0x20, CHR 0x74, CHR 0x61, CHR 0x62, CHR 0x69, CHR 0x6E, CHR 0x64,
      CHR 0x65, CHR 0x78]"

definition divButtonMessage :: string where
  "divButtonMessage =
     [CHR 0xD0, CHR 0x98, CHR 0xD1, CHR 0x81, CHR 0xD0, CHR 0xBF, CHR 0xD0, CHR 0xBE,
      CHR 0xD0, CHR 0xBB, CHR 0xD1, CHR 0x8C, CHR 0xD0, CHR 0xB7, CHR 0xD0, CHR 0xBE,
      CHR 0xD0, CHR 0xB2, CHR 0xD0, CHR 0xB0, CHR 0xD0, CHR 0xBD, CHR 0xD0, CHR 0xB8,
      CHR 0xD0, CHR 0xB5, CHR 0x20, CHR 0x64, CHR 0x69, CHR 0x76, CHR 0x20, CHR 0xD0,
      CHR 0xB2, CHR 0xD0, CHR 0xBC, CHR 0xD0, CHR 0xB5, CHR 0xD1, CHR 0x81, CHR 0xD1,
      CHR 0x82, CHR 0xD0, CHR 0xBE, CHR 0x20, CHR 0x62, CHR 0x75, CHR 0x74, CHR 0x74,
      CHR 0x6F, CHR 0x6E, CHR 0x20, CHR 0xD0, CHR 0xB4, CHR 0xD0, CHR 0xBB, CHR 0xD1,
      CHR 0x8F, CHR 0x20, CHR 0xD0, CHR 0xB8, CHR 0xD0, CHR 0xBD, CHR 0xD1, CHR 0x82,
      CHR 0xD0, CHR 0xB5, CHR 0xD1, CHR 0x80, CHR 0xD0, CHR 0xB0, CHR 0xD0, CHR 0xBA,
      CHR 0xD1, CHR 0x82, CHR 0xD0, CHR 0xB8, CHR 0xD0, CHR 0xB2, CHR 0xD0, CHR 0xBD,
      CHR 0xD0, CHR 0xBE, CHR 0xD0, CHR 0xB3, CHR 0xD0, CHR 0xBE, CHR 0x20, CHR 0xD1,
      CHR 0x8D, CHR 0xD0, CHR 0xBB, CHR 0xD0, CHR 0xB5, CHR 0xD0, CHR 0xBC, CHR 0xD0,
      CHR 0xB5, CHR 0xD0, CHR 0xBD, CHR 0xD1, CHR 0x82, CHR 0xD0, CHR 0xB0]"

text \<open>
  Its \<open>getSelector\<close>: the id, else a dot and the first class, else the tag name. Where
  \<open>className\<close> is an object and not a string, \<open>split\<close> is not a function of it and the
  call throws.
\<close>

definition getSelector_popup :: "element \<Rightarrow> error + string" where
  "getSelector_popup e =
     (let p = props e
      in if elementId p \<noteq> [] then Inr (''#'' @ elementId p)
         else (case className p of
                 None \<Rightarrow> Inl (TypeError ''element.className.split is not a function'')
               | Some cn \<Rightarrow>
                   if cn \<noteq> [] then Inr (''.'' @ firstClassOf cn)
                   else Inr (toLowerCase (tagName p))))"

text \<open>The object literal its checks push for an element; building it calls \<open>getSelector\<close>.\<close>

definition elementIssue_popup :: "string \<Rightarrow> string \<Rightarrow> string \<Rightarrow> element \<Rightarrow> error + finding list" where
  "elementIssue_popup ty cat msg e =
     (case getSelector_popup e of
        Inl err \<Rightarrow> Inl err
      | Inr sel \<Rightarrow>
          Inr [\<lparr>type = ty, category = cat, message = Text msg,
                element = Some (snippet e), selector = Some sel, details = None\<rparr>])"

text \<open>\<open>forEach\<close> with a callback that pushes findings or throws: the first throw ends it.\<close>

fun forEachIssue :: "('a \<Rightarrow> error + finding list) \<Rightarrow> 'a list \<Rightarrow> error + finding list" where
  "forEachIssue f [] = Inr []"
| "forEachIssue f (x # xs) =
     (case f x of
        Inl err \<Rightarrow> Inl err
      | Inr pushed \<Rightarrow>
          (case forEachIssue f xs of
             Inl err \<Rightarrow> Inl err
           | Inr rest \<Rightarrow> Inr (pushed @ rest)))"

definition imageIssues_popup :: "snapshot \<Rightarrow> error + finding list" where
  "imageIssues_popup s =
     forEachIssue (\<lambda>n. elementIssue_popup ''error'' ''images'' noAltMessage (fst n))
       (querySelectorAll s (\<lambda>e. hasName ''img'' e \<and> \<not> hasAttribute e ''alt''))"

text \<open>The headings block: it looks for \<open>h1, h2, h3, h4, h5, h6\<close>.\<close>

definition isHeading :: "element \<Rightarrow> bool" where
  "isHeading e =
     (hasName ''h1'' e \<or> hasName ''h2'' e \<or> hasName ''h3'' e \<or>
      hasName ''h4'' e \<or> hasName ''h5'' e \<or> hasName ''h6'' e)"

definition headingsIssue_popup :: "snapshot \<Rightarrow> finding list" where
  "headingsIssue_popup s =
     (if length (querySelectorAll s isHeading) = 0
      then [pageIssue ''warning'' ''headings'' noHeadingsMessage]
      else [])"

text \<open>Its contrast check reads the computed styles and returns the empty array.\<close>

definition checkColorContrast_popup :: "snapshot \<Rightarrow> finding list" where
  "checkColorContrast_popup s = []"

definition checkAriaAttributes_popup :: "snapshot \<Rightarrow> error + finding list" where
  "checkAriaAttributes_popup s =
     forEachIssue
       (\<lambda>n. if trim (textContent (props (fst n))) = [] \<and>
                \<not> hasDescendant (fst n) (\<lambda>d. hasName ''img'' d \<and> hasAttribute d ''alt'')
             then elementIssue_popup ''warning'' ''aria'' ariaLabelMessage (fst n)
             else Inr [])
       (querySelectorAll s (\<lambda>e. hasAttribute e ''aria-label''))"

definition checkKeyboardNavigation_popup :: "snapshot \<Rightarrow> error + finding list" where
  "checkKeyboardNavigation_popup s =
     forEachIssue
       (\<lambda>n. if js_less (tabIndexOf (fst n)) (Fin (- 1))
             then elementIssue_popup ''error'' ''keyboard'' badTabindexMessage (fst n)
             else Inr [])
       (querySelectorAll s (\<lambda>e. hasAttribute e ''tabindex''))"

definition checkSemanticMarkup_popup :: "snapshot \<Rightarrow> error + finding list" where
  "checkSemanticMarkup_popup s =
     forEachIssue (\<lambda>n. elementIssue_popup ''warning'' ''semantics'' divButtonMessage (fst n))
       (querySelectorAll s isDivButton)"

definition runA11yChecks_popup :: "snapshot \<Rightarrow> error + report" where
  "runA11yChecks_popup s =
     (case imageIssues_popup s of
        Inl err \<Rightarrow> Inl err
      | Inr images \<Rightarrow>
     (case checkAriaAttributes_popup s of
        Inl err \<Rightarrow> Inl err
      | Inr aria \<Rightarrow>
     (case checkKeyboardNavigation_popup s of
        Inl err \<Rightarrow> Inl err
      | Inr keyboard \<Rightarrow>
     (case checkSemanticMarkup_popup s of
        Inl err \<Rightarrow> Inl err
      | Inr semantic \<Rightarrow>
          (let is = images @ headingsIssue_popup s @ checkColorContrast_popup s @
                    aria @ keyboard @ semantic
           in Inr \<lparr>url = href s, timestamp = now s, issues = is, summary = summarize is\<rparr>)))))"

section \<open>Properties of findings\<close>

text \<open>The findings a call of \<open>A11yRuleUtils.runAllChecks()\<close> returned, if it was made and returned.\<close>

definition ruleIssues :: "snapshot \<Rightarrow> finding list" where
  "ruleIssues s = (case A11yRuleUtils s of Some (Inr rs) \<Rightarrow> rs | _ \<Rightarrow> [])"

text \<open>
  What holds of every finding that the checks of the content script build themselves: the
  severity is one of the two, snippet and selector are there together, the category is one
  of nine, and the findings without snippet are those of the categories headings and
  system.
\<close>

definition ownFinding :: "finding \<Rightarrow> bool" where
  "ownFinding f =
     ((type f = ''error'' \<or> type f = ''warning'') \<and>
      ((element f = None) = (selector f = None)) \<and>
      category f \<in> set [''images'', ''headings'', ''contrast'', ''aria'', ''keyboard'',
                         ''semantics'', ''language'', ''forms'', ''system''] \<and>
      ((element f = None) = (category f = ''headings'' \<or> category f = ''system'')))"

definition allOwn :: "finding list \<Rightarrow> bool" where
  "allOwn fs = (\<forall>f \<in> set fs. ownFinding f)"

text \<open>All findings of a list are of one category.\<close>

definition allCategory :: "string \<Rightarrow> finding list \<Rightarrow> bool" where
  "allCategory c fs = (\<forall>f \<in> set fs. category f = c)"

text \<open>
  Findings of the kind a rule module could return from the rules table: an image without
  an \<open>alt\<close> attribute, and a page without skip links, filed under the keyboard rules.
\<close>

definition pluginFindings :: "finding list" where
  "pluginFindings =
     [\<lparr>type = ''error'', category = ''images'', message = Text ''Image without alt attribute'',
       element = Some ''<img src=a.png>'', selector = Some ''img'', details = None\<rparr>,
      pageIssue ''warning'' ''keyboard'' ''No skip links'']"

section \<open>Sample pages\<close>

text \<open>
  The fallback \<open>ColorUtils\<close> that the content script installs when the module is not
  loaded: every ratio is 4.5.
\<close>

definition fallbackContrastRatio :: "string \<Rightarrow> string \<Rightarrow> error + jsnum" where
  "fallbackContrastRatio color1 color2 = Inr (Fin 4.5)"

definition fallbackSuggestions :: "string \<Rightarrow> string \<Rightarrow> jsnum \<Rightarrow> error + suggestions" where
  "fallbackSuggestions fg bg required = Inr (Suggestions (Fin 4.5) (Fin 4.5))"

text \<open>
  The fallback \<open>A11yRuleUtils\<close> that the content script installs when the rules table is
  not loaded: \<open>runAllChecks\<close> returns the empty array.
\<close>

definition fallbackRuleUtils :: "(error + finding list) option" where
  "fallbackRuleUtils = Some (Inr [])"

text \<open>A \<open>ColorUtils\<close> whose ratio is a given number.\<close>

definition constantContrastRatio :: "real \<Rightarrow> string \<Rightarrow> string \<Rightarrow> error + jsnum" where
  "constantContrastRatio q color1 color2 = Inr (Fin q)"

definition plainStyle :: style where
  "plainStyle =
     \<lparr>display = ''block'', visibility = ''visible'', opacity = ''1'', pointerEvents = ''auto'',
      color = ''rgb(0, 0, 0)'', style.backgroundColor = ''rgba(0, 0, 0, 0)'',
      style.fontSize = ''16px'', style.fontWeight = ''400''\<rparr>"

definition onScreen :: DOMRect where
  "onScreen = \<lparr>width = 100, height = 20, rtop = 10, rbottom = 30, rleft = 10, rright = 110\<rparr>"

text \<open>A visible element with a tag, attributes, text, a background and a font size.\<close>

definition sampleProps :: "string \<Rightarrow> string \<Rightarrow> (string \<times> string) list \<Rightarrow> string \<Rightarrow> string \<Rightarrow> string \<Rightarrow> props" where
  "sampleProps tag name attrs txt bg px =
     \<lparr>tagName = tag, localName = name, elementId = [], className = Some [],
      attributes = attrs, outerHTML = ''<'' @ name @ ''>'', textContent = txt,
      innerText = Some txt, disabled = False,
      computedStyle = plainStyle\<lparr>style.backgroundColor := bg, style.fontSize := px\<rparr>,
      boundingClientRect = onScreen\<rparr>"

definition sampleElement :: "string \<Rightarrow> string \<Rightarrow> (string \<times> string) list \<Rightarrow> string \<Rightarrow> element list \<Rightarrow> element" where
  "sampleElement tag name attrs txt kids =
     Element (sampleProps tag name attrs txt ''rgba(0, 0, 0, 0)'' ''16px'') kids"

definition samplePage :: "element \<Rightarrow> snapshot" where
  "samplePage html =
     \<lparr>documentElement = html, innerWidth = 1280, innerHeight = 720,
      href = ''https://example.org/'', now = ''2024-01-01T00:00:00.000Z'',
      A11yRuleUtils = None,
      calculateContrastRatio = fallbackContrastRatio,
      suggestContrastImprovements = fallbackSuggestions,
      cssEscaped = (\<lambda>v. Inl (SyntaxError ''not a valid selector''))\<rparr>"

text \<open>A page with a language, whose body holds the given elements.\<close>

definition pageWith :: "element list \<Rightarrow> snapshot" where
  "pageWith kids =
     samplePage (sampleElement ''HTML'' ''html'' [(''lang'', ''en'')] []
                   [sampleElement ''BODY'' ''body'' [] [] kids])"

text \<open>A page with a single second-level heading and no other heading.\<close>

definition h2Page :: snapshot where
  "h2Page = pageWith [sampleElement ''H2'' ''h2'' [(''tabindex'', ''0'')] [] []]"

text \<open>A page with a first-level heading and a text input that has no id and no label.\<close>

definition formPage :: snapshot where
  "formPage =
     pageWith [sampleElement ''H1'' ''h1'' [(''tabindex'', ''0'')] [] [],
               sampleElement ''INPUT'' ''input'' [(''type'', ''text''), (''tabindex'', ''0'')] [] []]"

text \<open>A document whose root has a language and a first-level heading, but no body.\<close>

definition bodylessPage :: snapshot where
  "bodylessPage =
     samplePage (sampleElement ''HTML'' ''html'' [(''lang'', ''en'')] []
                   [sampleElement ''H1'' ''h1'' [(''tabindex'', ''0'')] [] []])"

text \<open>
  A paragraph with a yellow background of its own, inside a body with a blue background,
  inside the document element.
\<close>

definition yellowParagraph :: node where
  "yellowParagraph =
     (Element (sampleProps ''P'' ''p'' [] ''text'' ''rgb(255, 255, 0)'' ''16px'') [],
      [Element (sampleProps ''BODY'' ''body'' [] ''text'' ''rgb(0, 0, 255)'' ''16px'') [],
       Element (sampleProps ''HTML'' ''html'' [] ''text'' ''rgba(0, 0, 0, 0)'' ''16px'') []])"

text \<open>
  A paragraph whose own background is nearly transparent, inside the same blue body.
\<close>

definition faintParagraph :: node where
  "faintParagraph =
     (Element (sampleProps ''P'' ''p'' [] ''text'' ''rgba(10, 20, 30, 0.05)'' ''16px'') [],
      [Element (sampleProps ''BODY'' ''body'' [] ''text'' ''rgb(0, 0, 255)'' ''16px'') [],
       Element (sampleProps ''HTML'' ''html'' [] ''text'' ''rgb(255, 0, 0)'' ''16px'') []])"

text \<open>
  A paragraph without a background, inside a body without one, inside a red document
  element.
\<close>

definition redRootParagraph :: node where
  "redRootParagraph =
     (Element (sampleProps ''P'' ''p'' [] ''text'' ''rgba(0, 0, 0, 0)'' ''16px'') [],
      [Element (sampleProps ''BODY'' ''body'' [] ''text'' ''transparent'' ''16px'') [],
       Element (sampleProps ''HTML'' ''html'' [] ''text'' ''rgb(255, 0, 0)'' ''16px'') []])"

text \<open>
  A page with a first-level heading and a text input whose id holds a double quote, so
  that the label selector built from it is not valid (the sample pages answer such a
  query with a syntax error).
\<close>

definition quoteIdPage :: snapshot where
  "quoteIdPage =
     pageWith [sampleElement ''H1'' ''h1'' [(''tabindex'', ''0'')] [] [],
               Element ((sampleProps ''INPUT'' ''input'' [(''type'', ''text''), (''tabindex'', ''0'')]
                           [] ''rgba(0, 0, 0, 0)'' ''16px'')
                          \<lparr>elementId := [CHR ''a'', CHR 0x22, CHR ''b'']\<rparr>) []]"

text \<open>A page whose body holds 2000 visible paragraphs with text.\<close>

definition crowdedPage :: snapshot where
  "crowdedPage = pageWith (replicate 2000 (sampleElement ''P'' ''p'' [] ''text'' []))"

text \<open>
  A page with a heading and no language, audited with a rule module that returns two
  findings.
\<close>

definition pluginPage :: snapshot where
  "pluginPage =
     (samplePage (sampleElement ''HTML'' ''html'' [] []
                    [sampleElement ''BODY'' ''body'' [] []
                       [sampleElement ''H2'' ''h2'' [(''tabindex'', ''0'')] [] []]]))
       \<lparr>A11yRuleUtils := Some (Inr pluginFindings)\<rparr>"

text \<open>A page without any heading, audited with the fallback rule module.\<close>

definition fallbackPage :: snapshot where
  "fallbackPage = (pageWith [])\<lparr>A11yRuleUtils := fallbackRuleUtils\<rparr>"

text \<open>The heading page, audited with a rule module whose call throws.\<close>

definition brokenPluginPage :: snapshot where
  "brokenPluginPage = h2Page\<lparr>A11yRuleUtils := Some (Inl (Thrown ''boom''))\<rparr>"

text \<open>A visible element whose \<open>tabindex\<close> attribute is not a number.\<close>

definition oddTabindexButton :: element where
  "oddTabindexButton = sampleElement ''BUTTON'' ''button'' [(''tabindex'', ''abc'')] ''Go'' []"

text \<open>A button below a viewport of height 720.\<close>

definition belowViewportButton :: element where
  "belowViewportButton =
     Element ((sampleProps ''BUTTON'' ''button'' [] ''Go'' ''rgba(0, 0, 0, 0)'' ''16px'')
                \<lparr>boundingClientRect :=
                   \<lparr>width = 100, height = 20, rtop = 900, rbottom = 920, rleft = 10, rright = 110\<rparr>\<rparr>) []"

text \<open>A page audited with a \<open>ColorUtils\<close> that measures the ratio 4.4 everywhere.\<close>

definition lowContrastPage :: snapshot where
  "lowContrastPage = (pageWith [])\<lparr>calculateContrastRatio := constantContrastRatio 4.4\<rparr>"

text \<open>
  A paragraph of a given font size and weight, inside a body, inside the document element;
  none of them has a background.
\<close>

definition textOfSize :: "string \<Rightarrow> string \<Rightarrow> node" where
  "textOfSize px weight =
     (Element ((sampleProps ''P'' ''p'' [] ''text'' ''rgba(0, 0, 0, 0)'' px)
                 \<lparr>computedStyle :=
                    plainStyle\<lparr>style.fontSize := px, style.fontWeight := weight\<rparr>\<rparr>) [],
      [sampleElement ''BODY'' ''body'' [] [] [],
       sampleElement ''HTML'' ''html'' [] [] []])"

text \<open>
  What the loop of \<open>getTextElements\<close> asks of an element before it collects it: visible,
  and with text left after trimming.
\<close>

definition textBearing :: "snapshot \<Rightarrow> node \<Rightarrow> bool" where
  "textBearing s n =
     (isElementVisible s (Elem (fst n)) \<and> length (trim (textOf (fst n))) > 0)"

section \<open>Every finding the checks build is well formed\<close>

lemma allOwn_Nil: "allOwn []"
  by (simp add: allOwn_def)

lemma allOwn_append: "allOwn (xs @ ys) = (allOwn xs \<and> allOwn ys)"
  by (auto simp: allOwn_def)

lemma allOwn_concat_map: "(\<And>x. allOwn (g x)) \<Longrightarrow> allOwn (concat (map g xs))"
  by (induction xs) (simp_all add: allOwn_Nil allOwn_append)

lemma allOwn_elementIssue:
  "ty = ''error'' \<or> ty = ''warning'' \<Longrightarrow>
   cat \<in> set [''images'', ''contrast'', ''aria'', ''keyboard'',
               ''semantics'', ''language'', ''forms''] \<Longrightarrow>
   allOwn [elementIssue ty cat msg e]"
  by (auto simp: allOwn_def ownFinding_def elementIssue_def)

lemma allOwn_pageIssue:
  "ty = ''error'' \<or> ty = ''warning'' \<Longrightarrow>
   cat = ''headings'' \<or> cat = ''system'' \<Longrightarrow>
   allOwn [pageIssue ty cat msg]"
  by (auto simp: allOwn_def ownFinding_def pageIssue_def)

lemma allOwn_contrastIssue: "allOwn (contrastIssue s n)"
  by (auto simp: contrastIssue_def allOwn_def ownFinding_def split: option.splits)

lemma allOwn_checkColorContrast: "allOwn (checkColorContrast s)"
  unfolding checkColorContrast_def by (rule allOwn_concat_map) (rule allOwn_contrastIssue)

lemma allOwn_ariaLabelIssue: "allOwn (ariaLabelIssue s e)"
  by (simp add: ariaLabelIssue_def allOwn_Nil allOwn_elementIssue Let_def)

lemma allOwn_roleIssue: "allOwn (roleIssue e)"
  by (simp add: roleIssue_def allOwn_Nil allOwn_elementIssue split: option.splits)

lemma allOwn_checkAriaAttributes: "allOwn (checkAriaAttributes s)"
  unfolding checkAriaAttributes_def allOwn_append
  by (intro conjI allOwn_concat_map allOwn_ariaLabelIssue allOwn_roleIssue)

lemma allOwn_tabindexIssue: "allOwn (tabindexIssue s e)"
  by (simp add: tabindexIssue_def allOwn_Nil allOwn_elementIssue)

lemma allOwn_interactiveIssue: "allOwn (interactiveIssue s e)"
  by (simp add: interactiveIssue_def allOwn_Nil allOwn_elementIssue Let_def)

lemma allOwn_checkKeyboardNavigation: "allOwn (checkKeyboardNavigation s)"
  unfolding checkKeyboardNavigation_def allOwn_append
  by (intro conjI allOwn_concat_map allOwn_tabindexIssue allOwn_interactiveIssue)

lemma allOwn_divButtonIssue: "allOwn (divButtonIssue s e)"
  by (simp add: divButtonIssue_def allOwn_Nil allOwn_elementIssue)

lemma allOwn_layoutTableIssue: "allOwn (layoutTableIssue e)"
  by (simp add: layoutTableIssue_def allOwn_Nil allOwn_elementIssue)

lemma allOwn_checkSemanticMarkup: "allOwn (checkSemanticMarkup s)"
  unfolding checkSemanticMarkup_def allOwn_append
  by (intro conjI allOwn_concat_map allOwn_divButtonIssue allOwn_layoutTableIssue)

lemma allOwn_langIssue: "allOwn (langIssue s)"
  by (simp add: langIssue_def allOwn_def ownFinding_def)

lemma allOwn_imageIssue: "allOwn (imageIssue s e)"
  by (simp add: imageIssue_def allOwn_Nil allOwn_elementIssue)

lemma allOwn_basicHeadingsIssue: "allOwn (basicHeadingsIssue s)"
  by (simp add: basicHeadingsIssue_def allOwn_Nil allOwn_pageIssue)

lemma allOwn_Cons: "allOwn [x] \<Longrightarrow> allOwn xs \<Longrightarrow> allOwn (x # xs)"
  by (simp add: allOwn_def)

lemma allOwn_formsLoop: "allOwn (fst (formsLoop s ns))"
proof (induction ns)
  case Nil
  show ?case by (simp add: allOwn_Nil)
next
  case (Cons n ns)
  have own: "allOwn [elementIssue ''warning'' ''forms'' ''Input without associated label'' (fst n)]"
    by (rule allOwn_elementIssue) simp_all
  show ?case
  proof (cases "inputLabelled s (fst n)")
    case (Inl e)
    then show ?thesis by (simp add: allOwn_Nil)
  next
    case (Inr labelled)
    with Cons own show ?thesis
      by (cases labelled) (simp_all add: allOwn_Cons)
  qed
qed

lemma allOwn_runBasicChecks_try: "allOwn (fst (runBasicChecks_try s))"
  unfolding runBasicChecks_try_def Let_def fst_conv allOwn_append
  by (intro conjI allOwn_concat_map allOwn_imageIssue allOwn_langIssue
        allOwn_basicHeadingsIssue allOwn_formsLoop)

lemma allOwn_runBasicChecks: "allOwn (runBasicChecks s)"
  by (simp add: runBasicChecks_def allOwn_append allOwn_runBasicChecks_try allOwn_pageIssue
        split: option.splits)

lemma allOwn_specializedChecks: "allOwn (specializedChecks s)"
  by (simp add: specializedChecks_def allOwn_append allOwn_checkColorContrast
        allOwn_checkAriaAttributes allOwn_checkKeyboardNavigation allOwn_checkSemanticMarkup
        checkLanguage_def allOwn_langIssue)


lemma count_by_severity:
  "\<forall>f \<in> set fs. type f = ''error'' \<or> type f = ''warning'' \<Longrightarrow>
   length (filter (\<lambda>i. type i = ''error'') fs) + length (filter (\<lambda>i. type i = ''warning'') fs)
     = length fs"
  by (induction fs) auto

lemma allOwn_severity: "allOwn fs \<Longrightarrow> f \<in> set fs \<Longrightarrow> type f = ''error'' \<or> type f = ''warning''"
  by (simp add: allOwn_def ownFinding_def)

lemma issues_cases:
  "issues (runA11yChecks s) =
     (case A11yRuleUtils s of
        Some (Inl e) \<Rightarrow> [pageIssue ''error'' ''system'' (''Check execution error: '' @ errorMessage e)]
      | Some (Inr rs) \<Rightarrow> rs @ specializedChecks s
      | None \<Rightarrow> runBasicChecks s @ specializedChecks s)"
  by (simp add: runA11yChecks_def runA11yChecks_try_def Let_def split: option.splits sum.splits)

lemma issues_split:
  "\<exists>own. allOwn own \<and> issues (runA11yChecks s) = ruleIssues s @ own"
proof (cases "A11yRuleUtils s")
  case None
  then show ?thesis
    by (simp add: issues_cases ruleIssues_def allOwn_append allOwn_runBasicChecks allOwn_specializedChecks)
next
  case (Some r)
  show ?thesis
  proof (cases r)
    case (Inl e)
    have "allOwn [pageIssue ''error'' ''system'' (''Check execution error: '' @ errorMessage e)]"
      by (rule allOwn_pageIssue) simp_all
    with Some Inl show ?thesis
      by (simp add: issues_cases ruleIssues_def)
  next
    case (Inr rs)
    with Some show ?thesis
      by (simp add: issues_cases ruleIssues_def allOwn_specializedChecks)
  qed
qed

lemma allOwn_locator: "allOwn fs \<Longrightarrow> f \<in> set fs \<Longrightarrow> (element f = None) = (selector f = None)"
  by (simp add: allOwn_def ownFinding_def)

lemma allOwn_page_level:
  "allOwn fs \<Longrightarrow> f \<in> set fs \<Longrightarrow>
   (element f = None) = (category f = ''headings'' \<or> category f = ''system'')"
  by (auto simp: allOwn_def ownFinding_def)

lemma allOwn_category:
  "allOwn fs \<Longrightarrow> f \<in> set fs \<Longrightarrow>
   category f \<in> set [''images'', ''headings'', ''contrast'', ''aria'', ''keyboard'',
                      ''semantics'', ''language'', ''forms'', ''system'']"
  by (simp add: allOwn_def ownFinding_def)

subsection \<open>The category of the findings of each check\<close>

lemma allCategory_Nil: "allCategory c []"
  by (simp add: allCategory_def)

lemma allCategory_append: "allCategory c (xs @ ys) = (allCategory c xs \<and> allCategory c ys)"
  by (auto simp: allCategory_def)

lemma allCategory_concat_map: "(\<And>x. allCategory c (g x)) \<Longrightarrow> allCategory c (concat (map g xs))"
  by (induction xs) (simp_all add: allCategory_Nil allCategory_append)

lemma allCategory_elementIssue: "allCategory c [elementIssue ty c msg e]"
  by (simp add: allCategory_def elementIssue_def)

lemma allCategory_pageIssue: "allCategory c [pageIssue ty c msg]"
  by (simp add: allCategory_def pageIssue_def)

lemma allCategory_filter_other:
  "allCategory c fs \<Longrightarrow> c \<noteq> d \<Longrightarrow> filter (\<lambda>f. category f = d) fs = []"
  by (induction fs) (auto simp: allCategory_def)

lemma allCategory_filter_same:
  "allCategory c fs \<Longrightarrow> filter (\<lambda>f. category f = c) fs = fs"
  by (induction fs) (auto simp: allCategory_def)

lemma category_contrastIssue: "allCategory ''contrast'' (contrastIssue s n)"
  by (auto simp: contrastIssue_def allCategory_def split: option.splits)

lemma category_checkColorContrast: "allCategory ''contrast'' (checkColorContrast s)"
  unfolding checkColorContrast_def by (rule allCategory_concat_map) (rule category_contrastIssue)

lemma category_ariaLabelIssue: "allCategory ''aria'' (ariaLabelIssue s e)"
  by (simp add: ariaLabelIssue_def allCategory_Nil allCategory_elementIssue Let_def)

lemma category_roleIssue: "allCategory ''aria'' (roleIssue e)"
  by (simp add: roleIssue_def allCategory_Nil allCategory_elementIssue split: option.splits)

lemma category_checkAriaAttributes: "allCategory ''aria'' (checkAriaAttributes s)"
  unfolding checkAriaAttributes_def allCategory_append
  by (intro conjI allCategory_concat_map category_ariaLabelIssue category_roleIssue)

lemma category_tabindexIssue: "allCategory ''keyboard'' (tabindexIssue s e)"
  by (simp add: tabindexIssue_def allCategory_Nil allCategory_elementIssue)

lemma category_interactiveIssue: "allCategory ''keyboard'' (interactiveIssue s e)"
  by (simp add: interactiveIssue_def allCategory_Nil allCategory_elementIssue Let_def)

lemma category_checkKeyboardNavigation: "allCategory ''keyboard'' (checkKeyboardNavigation s)"
  unfolding checkKeyboardNavigation_def allCategory_append
  by (intro conjI allCategory_concat_map category_tabindexIssue category_interactiveIssue)

lemma category_divButtonIssue: "allCategory ''semantics'' (divButtonIssue s e)"
  by (simp add: divButtonIssue_def allCategory_Nil allCategory_elementIssue)

lemma category_layoutTableIssue: "allCategory ''semantics'' (layoutTableIssue e)"
  by (simp add: layoutTableIssue_def allCategory_Nil allCategory_elementIssue)

lemma category_checkSemanticMarkup: "allCategory ''semantics'' (checkSemanticMarkup s)"
  unfolding checkSemanticMarkup_def allCategory_append
  by (intro conjI allCategory_concat_map category_divButtonIssue category_layoutTableIssue)

lemma category_langIssue: "allCategory ''language'' (langIssue s)"
  by (simp add: langIssue_def allCategory_def)

lemma category_imageIssue: "allCategory ''images'' (imageIssue s e)"
  by (simp add: imageIssue_def allCategory_Nil allCategory_elementIssue)

lemma category_basicHeadingsIssue: "allCategory ''headings'' (basicHeadingsIssue s)"
  by (simp add: basicHeadingsIssue_def allCategory_Nil allCategory_pageIssue)

lemma category_formsLoop: "allCategory ''forms'' (fst (formsLoop s ns))"
proof (induction ns)
  case Nil
  show ?case by (simp add: allCategory_Nil)
next
  case (Cons n ns)
  show ?case
  proof (cases "inputLabelled s (fst n)")
    case (Inl e)
    then show ?thesis by (simp add: allCategory_Nil)
  next
    case (Inr labelled)
    with Cons allCategory_elementIssue[of "''forms''" "''warning''" "''Input without associated label''" "fst n"]
    show ?thesis
      by (cases labelled) (simp_all add: allCategory_def)
  qed
qed

text \<open>No finding of a list has the category system.\<close>

lemma no_system_of_category:
  "allCategory c fs \<Longrightarrow> c \<noteq> ''system'' \<Longrightarrow> \<forall>f \<in> set fs. category f \<noteq> ''system''"
  by (auto simp: allCategory_def)

lemma no_system_specializedChecks: "\<forall>f \<in> set (specializedChecks s). category f \<noteq> ''system''"
  using no_system_of_category[OF category_checkColorContrast, of s]
        no_system_of_category[OF category_checkAriaAttributes, of s]
        no_system_of_category[OF category_checkKeyboardNavigation, of s]
        no_system_of_category[OF category_checkSemanticMarkup, of s]
        no_system_of_category[OF category_langIssue, of s]
  by (auto simp: specializedChecks_def checkLanguage_def)

lemma no_system_images:
  "\<forall>f \<in> set (concat (map (\<lambda>n. imageIssue s (fst n)) ns)). category f \<noteq> ''system''"
  by (rule no_system_of_category[OF allCategory_concat_map[of "''images''"]])
     (simp_all add: category_imageIssue)

lemma no_system_runBasicChecks_try: "\<forall>f \<in> set (fst (runBasicChecks_try s)). category f \<noteq> ''system''"
  using no_system_images[of s]
        no_system_of_category[OF category_langIssue, of s]
        no_system_of_category[OF category_basicHeadingsIssue, of s]
        no_system_of_category[OF category_formsLoop, of s]
  by (auto simp: runBasicChecks_try_def Let_def)

section \<open>The report and its summary\<close>

text \<open>
  Claim C1. In every report of the engine, \<open>summary.total\<close> is the length of the findings,
  \<open>summary.errors\<close> the number of findings of severity error, \<open>summary.warnings\<close> the
  number of severity warning, and errors plus warnings is the total. The rule module
  \<open>A11yRuleUtils\<close> is not part of the sources: the findings it returns are assumed to
  have one of the two severities, as every finding the content script builds itself has.
\<close>

theorem report_summary_counts:
  assumes "\<forall>f \<in> set (ruleIssues s). type f = ''error'' \<or> type f = ''warning''"
  shows "total (summary (runA11yChecks s)) = length (issues (runA11yChecks s)) \<and>
         errors (summary (runA11yChecks s))
           = length (filter (\<lambda>f. type f = ''error'') (issues (runA11yChecks s))) \<and>
         warnings (summary (runA11yChecks s))
           = length (filter (\<lambda>f. type f = ''warning'') (issues (runA11yChecks s))) \<and>
         errors (summary (runA11yChecks s)) + warnings (summary (runA11yChecks s))
           = total (summary (runA11yChecks s))"
proof -
  have sm: "summary (runA11yChecks s) = summarize (issues (runA11yChecks s))"
    by (simp add: runA11yChecks_def Let_def)
  obtain own where own: "allOwn own" "issues (runA11yChecks s) = ruleIssues s @ own"
    using issues_split by blast
  have "\<forall>f \<in> set (issues (runA11yChecks s)). type f = ''error'' \<or> type f = ''warning''"
    using assms own allOwn_severity by auto
  then have "length (filter (\<lambda>i. type i = ''error'') (issues (runA11yChecks s)))
           + length (filter (\<lambda>i. type i = ''warning'') (issues (runA11yChecks s)))
           = length (issues (runA11yChecks s))"
    by (rule count_by_severity)
  then show ?thesis
    by (simp add: sm summarize_def)
qed

theorem report_summary_counts_witness:
  "map type (ruleIssues pluginPage) = [''error'', ''warning''] \<and>
   map type (issues (runA11yChecks pluginPage)) = [''error'', ''warning'', ''error''] \<and>
   total (summary (runA11yChecks pluginPage)) = 3 \<and>
   errors (summary (runA11yChecks pluginPage)) = 2 \<and>
   warnings (summary (runA11yChecks pluginPage)) = 1 \<and>
   errors (summary (runA11yChecks pluginPage)) + warnings (summary (runA11yChecks pluginPage))
     = total (summary (runA11yChecks pluginPage))"
proof -
  have r: "map type (ruleIssues pluginPage) = [''error'', ''warning'']" by code_simp
  have h: "\<forall>f \<in> set (ruleIssues pluginPage). type f = ''error'' \<or> type f = ''warning''"
    using r by auto
  have m: "map type (issues (runA11yChecks pluginPage)) = [''error'', ''warning'', ''error'']"
    by code_simp
  have e: "length (filter (\<lambda>f. type f = ''error'') (issues (runA11yChecks pluginPage))) = 2"
    by code_simp
  have w: "length (filter (\<lambda>f. type f = ''warning'') (issues (runA11yChecks pluginPage))) = 1"
    by code_simp
  show ?thesis
    using report_summary_counts [OF h] r m e w by simp
qed

text \<open>
  Claim C8. Every finding of every report has severity error or warning, and carries an
  element snippet exactly when it carries a selector. The findings returned by the rule
  module \<open>A11yRuleUtils\<close>, which is not part of the sources, are assumed to be so.
\<close>

theorem findings_severity_and_locator:
  assumes "\<forall>f \<in> set (ruleIssues s).
             (type f = ''error'' \<or> type f = ''warning'') \<and>
             ((element f \<noteq> None) = (selector f \<noteq> None))"
  shows "\<forall>f \<in> set (issues (runA11yChecks s)).
           (type f = ''error'' \<or> type f = ''warning'') \<and>
           ((element f \<noteq> None) = (selector f \<noteq> None))"
proof
  fix f assume f: "f \<in> set (issues (runA11yChecks s))"
  obtain own where own: "allOwn own" "issues (runA11yChecks s) = ruleIssues s @ own"
    using issues_split by blast
  from f own(2) consider "f \<in> set (ruleIssues s)" | "f \<in> set own" by auto
  then show "(type f = ''error'' \<or> type f = ''warning'') \<and>
             ((element f \<noteq> None) = (selector f \<noteq> None))"
  proof cases
    case 1
    with assms show ?thesis by blast
  next
    case 2
    with own(1) allOwn_severity[of own f] allOwn_locator[of own f] show ?thesis by auto
  qed
qed

theorem findings_severity_and_locator_witness:
  "map (\<lambda>f. (type f, element f, selector f)) (ruleIssues pluginPage)
     = [(''error'', Some ''<img src=a.png>'', Some ''img''), (''warning'', None, None)] \<and>
   map (\<lambda>f. (type f, element f, selector f)) (issues (runA11yChecks pluginPage))
     = [(''error'', Some ''<img src=a.png>'', Some ''img''), (''warning'', None, None),
        (''error'', Some ''<html>'', Some ''html'')] \<and>
   list_all (\<lambda>f. (type f = ''error'' \<or> type f = ''warning'') \<and>
                  ((element f \<noteq> None) = (selector f \<noteq> None)))
            (issues (runA11yChecks pluginPage))"
proof -
  have r: "map (\<lambda>f. (type f, element f, selector f)) (ruleIssues pluginPage)
     = [(''error'', Some ''<img src=a.png>'', Some ''img''), (''warning'', None, None)]"
    by code_simp
  have h: "\<forall>f \<in> set (ruleIssues pluginPage).
             (type f = ''error'' \<or> type f = ''warning'') \<and>
             ((element f \<noteq> None) = (selector f \<noteq> None))"
    using r by auto
  have m: "map (\<lambda>f. (type f, element f, selector f)) (issues (runA11yChecks pluginPage))
     = [(''error'', Some ''<img src=a.png>'', Some ''img''), (''warning'', None, None),
        (''error'', Some ''<html>'', Some ''html'')]"
    by code_simp
  show ?thesis
    using findings_severity_and_locator [OF h] r m by (simp add: list_all_iff)
qed

section \<open>Categories\<close>

text \<open>
  Claim C9 as it is written does not hold: the basic checks file an input without a label
  under the category \<open>forms\<close>, which is none of the eight. On the page with a heading and
  an unlabelled text input, the only finding of the report has that category.
\<close>

theorem category_outside_the_eight:
  "map category (issues (runA11yChecks formPage)) = [''forms''] \<and>
   ''forms'' \<notin> set [''images'', ''headings'', ''contrast'', ''aria'', ''keyboard'',
                     ''semantics'', ''language'', ''system'']"
proof -
  have "map category (issues (runA11yChecks formPage)) = [''forms'']" by code_simp
  then show ?thesis by simp
qed

text \<open>
  Claim C9, amended. The category of every finding of a report is one of nine values: the
  eight of the claim and \<open>forms\<close>. The category \<open>system\<close> is kept for failures of the
  engine: when neither the \<open>try\<close> block of the entry point nor, where they run, that
  of the basic checks threw, no finding has it. The findings returned by the rule module \<open>A11yRuleUtils\<close>,
  which is not part of the sources, are assumed to respect both.
\<close>

theorem categories_of_findings:
  assumes "\<forall>f \<in> set (ruleIssues s).
             category f \<in> set [''images'', ''headings'', ''contrast'', ''aria'', ''keyboard'',
                                ''semantics'', ''language'', ''forms'', ''system'']"
  shows "(\<forall>f \<in> set (issues (runA11yChecks s)).
             category f \<in> set [''images'', ''headings'', ''contrast'', ''aria'', ''keyboard'',
                                ''semantics'', ''language'', ''forms'', ''system'']) \<and>
         (snd (runA11yChecks_try s) = None \<and>
          (A11yRuleUtils s = None \<longrightarrow> snd (runBasicChecks_try s) = None) \<and>
          (\<forall>f \<in> set (ruleIssues s). category f \<noteq> ''system'')
          \<longrightarrow> (\<forall>f \<in> set (issues (runA11yChecks s)). category f \<noteq> ''system''))"
proof (intro conjI impI)
  obtain own where own: "allOwn own" "issues (runA11yChecks s) = ruleIssues s @ own"
    using issues_split by blast
  show "\<forall>f \<in> set (issues (runA11yChecks s)).
             category f \<in> set [''images'', ''headings'', ''contrast'', ''aria'', ''keyboard'',
                                ''semantics'', ''language'', ''forms'', ''system'']"
  proof
    fix f assume "f \<in> set (issues (runA11yChecks s))"
    with own(2) consider "f \<in> set (ruleIssues s)" | "f \<in> set own" by auto
    then show "category f \<in> set [''images'', ''headings'', ''contrast'', ''aria'', ''keyboard'',
                                ''semantics'', ''language'', ''forms'', ''system'']"
    proof cases
      case 1
      with assms show ?thesis by blast
    next
      case 2
      with own(1) show ?thesis by (rule allOwn_category)
    qed
  qed
next
  assume quiet: "snd (runA11yChecks_try s) = None \<and>
          (A11yRuleUtils s = None \<longrightarrow> snd (runBasicChecks_try s) = None) \<and>
          (\<forall>f \<in> set (ruleIssues s). category f \<noteq> ''system'')"
  show "\<forall>f \<in> set (issues (runA11yChecks s)). category f \<noteq> ''system''"
  proof (cases "A11yRuleUtils s")
    case None
    with quiet no_system_runBasicChecks_try[of s] no_system_specializedChecks[of s]
    show ?thesis
      by (auto simp: issues_cases runBasicChecks_def)
  next
    case (Some r)
    show ?thesis
    proof (cases r)
      case (Inl e)
      with Some quiet show ?thesis by (simp add: runA11yChecks_try_def)
    next
      case (Inr rs)
      with Some quiet no_system_specializedChecks[of s] show ?thesis
        by (auto simp: issues_cases ruleIssues_def)
    qed
  qed
qed

theorem categories_of_findings_witness:
  "map category (ruleIssues pluginPage) = [''images'', ''keyboard''] \<and>
   snd (runA11yChecks_try pluginPage) = None \<and> snd (runBasicChecks_try pluginPage) = None \<and>
   map category (issues (runA11yChecks pluginPage)) = [''images'', ''keyboard'', ''language''] \<and>
   list_all (\<lambda>f. category f \<in> set [''images'', ''headings'', ''contrast'', ''aria'', ''keyboard'',
                                      ''semantics'', ''language'', ''forms'', ''system'']
                  \<and> category f \<noteq> ''system'')
     (issues (runA11yChecks pluginPage))"
proof -
  have r: "map category (ruleIssues pluginPage) = [''images'', ''keyboard'']" by code_simp
  have h: "\<forall>f \<in> set (ruleIssues pluginPage).
             category f \<in> set [''images'', ''headings'', ''contrast'', ''aria'', ''keyboard'',
                                ''semantics'', ''language'', ''forms'', ''system'']"
    using r by auto
  have n: "\<forall>f \<in> set (ruleIssues pluginPage). category f \<noteq> ''system''"
    using r by auto
  have a: "snd (runA11yChecks_try pluginPage) = None" by code_simp
  have b: "snd (runBasicChecks_try pluginPage) = None" by code_simp
  have m: "map category (issues (runA11yChecks pluginPage)) = [''images'', ''keyboard'', ''language'']"
    by code_simp
  show ?thesis
    using categories_of_findings [OF h] r n a b m by (auto simp: list_all_iff)
qed

section \<open>Visibility\<close>

text \<open>
  Claim C5. \<open>isElementVisible\<close> is true of an element exactly when its bounding box is
  not of width and height both zero, its computed display is not \<open>none\<close>, its visibility
  not \<open>hidden\<close>, its opacity not \<open>0\<close>, and the box meets the viewport (top less than
  the viewport height, bottom greater than 0, left less than the viewport width, right
  greater than 0). For nothing, for an object without a geometry query, and whenever the
  body of its \<open>try\<close> block throws, it returns false.
\<close>

theorem isElementVisible_characterised:
  "(isElementVisible s (Elem e) =
      (\<not> (width (boundingClientRect (props e)) = 0 \<and> height (boundingClientRect (props e)) = 0) \<and>
       display (computedStyle (props e)) \<noteq> ''none'' \<and>
       visibility (computedStyle (props e)) \<noteq> ''hidden'' \<and>
       opacity (computedStyle (props e)) \<noteq> ''0'' \<and>
       rtop (boundingClientRect (props e)) < innerHeight s \<and>
       rbottom (boundingClientRect (props e)) > 0 \<and>
       rleft (boundingClientRect (props e)) < innerWidth s \<and>
       rright (boundingClientRect (props e)) > 0)) \<and>
   \<not> isElementVisible s Absent \<and>
   \<not> isElementVisible s (Foreign False) \<and>
   (\<forall>t err. isElementVisible_try s t = Inl err \<longrightarrow> \<not> isElementVisible s t)"
  by (simp add: isElementVisible_def isElementVisible_try_def Let_def)

theorem isElementVisible_characterised_witness:
  "isElementVisible_try (pageWith []) (Foreign True)
     = Inl (TypeError ''parameter 1 is not of type Element'') \<and>
   \<not> isElementVisible (pageWith []) (Foreign True) \<and>
   isElementVisible (pageWith []) (Elem oddTabindexButton) \<and>
   \<not> isElementVisible (pageWith []) (Elem belowViewportButton)"
proof -
  have t: "isElementVisible_try (pageWith []) (Foreign True)
             = Inl (TypeError ''parameter 1 is not of type Element'')"
    by code_simp
  have v: "isElementVisible (pageWith []) (Elem oddTabindexButton)" by code_simp
  have b: "\<not> isElementVisible (pageWith []) (Elem belowViewportButton)" by code_simp
  show ?thesis
    using isElementVisible_characterised [of "pageWith []" oddTabindexButton] t v b by blast
qed

section \<open>Keyboard check\<close>



section \<open>Contrast thresholds\<close>

lemma parseInt_finite: "parseInt w = NaN \<or> (\<exists>x. parseInt w = Fin x)"
  by (auto simp: parseInt_def Let_def split: prod.splits)

text \<open>
  Claim C2. For an element with a foreground colour, for which \<open>ColorUtils\<close> returns a
  ratio and suggestions, the evaluator returns a result in which: the font size is the
  number \<open>parseFloat\<close> reads from the computed font size, and the font weight the number
  \<open>parseInt\<close> reads from the computed font weight, or 400 when that is NaN or zero; for
  a font size \<open>px\<close> and a weight \<open>w\<close> the required AA ratio is 3 when \<open>px\<close> is at
  least 24, or at least 18.66 with \<open>w\<close> at least 700, and 4.5 otherwise (3 for an
  infinite size, 4.5 for a size that is not a number); the required AAA ratio is 4.5 when
  the AA ratio is 3 and 7 otherwise; \<open>meetsAA\<close> and \<open>meetsAAA\<close> hold exactly when the
  ratio is at least the required one, and never for a ratio that is not a number. The
  witness runs the ratio 4.4 at 16px and 25px, as in the claim, at the two bounds 24 and
  18.66 with weights on both sides of 700, and the ratio 4.5 at 16px.
\<close>

theorem contrast_thresholds:
  assumes "color (computedStyle (props (fst n))) \<noteq> []"
      and "calculateContrastRatio s (color (computedStyle (props (fst n)))) (getBackgroundColor n)
             = Inr q"
      and "\<forall>required. \<exists>sg. suggestContrastImprovements s (color (computedStyle (props (fst n))))
             (getBackgroundColor n) required = Inr sg"
  shows "\<exists>r. getContrastRatioForElement s n = Some r \<and>
             ratio r = q \<and>
             fontSize r = parseFloat (style.fontSize (computedStyle (props (fst n)))) \<and>
             fontWeight r =
               (if parseInt (style.fontWeight (computedStyle (props (fst n)))) = NaN \<or>
                   parseInt (style.fontWeight (computedStyle (props (fst n)))) = Fin 0
                then Fin 400
                else parseInt (style.fontWeight (computedStyle (props (fst n))))) \<and>
             (\<exists>w. fontWeight r = Fin w) \<and>
             (\<forall>px w. fontSize r = Fin px \<and> fontWeight r = Fin w \<longrightarrow>
                requiredAARatio r =
                  (if 24 \<le> px \<or> (18.66 \<le> px \<and> 700 \<le> w) then Fin 3 else Fin 4.5)) \<and>
             (fontSize r = PosInf \<longrightarrow> requiredAARatio r = Fin 3) \<and>
             (fontSize r = NaN \<or> fontSize r = NegInf \<longrightarrow> requiredAARatio r = Fin 4.5) \<and>
             requiredAAARatio r = (if requiredAARatio r = Fin 3 then Fin 4.5 else Fin 7) \<and>
             (\<forall>x a. q = Fin x \<and> requiredAARatio r = Fin a \<longrightarrow> meetsAA r = (a \<le> x)) \<and>
             (\<forall>x a. q = Fin x \<and> requiredAAARatio r = Fin a \<longrightarrow> meetsAAA r = (a \<le> x)) \<and>
             (q = NaN \<or> q = NegInf \<longrightarrow> \<not> meetsAA r \<and> \<not> meetsAAA r) \<and>
             (q = PosInf \<longrightarrow> meetsAA r \<and> meetsAAA r)"
proof -
  let ?st = "computedStyle (props (fst n))"
  let ?px = "parseFloat (style.fontSize ?st)"
  let ?w = "weightOr400 (style.fontWeight ?st)"
  let ?aa = "getRequiredContrastRatio ?px ?w"
  let ?aaa = "if ?aa = Fin 3 then Fin 4.5 else Fin 7"
  from assms(3) obtain sg where
    sg: "suggestContrastImprovements s (color ?st) (getBackgroundColor n) ?aa = Inr sg"
    by blast
  let ?r = "\<lparr>ratio = q, fontSize = ?px, fontWeight = ?w, requiredAARatio = ?aa,
             requiredAAARatio = ?aaa, meetsAA = js_ge q ?aa, meetsAAA = js_ge q ?aaa,
             textColor = color ?st, backgroundColor = getBackgroundColor n,
             suggestions = sg\<rparr>"
  have res: "getContrastRatioForElement s n = Some ?r"
    using assms(1,2) sg
    by (simp add: getContrastRatioForElement_def getContrastRatioForElement_try_def Let_def
          getBackgroundColor_def split: option.splits)
  have wt: "?w = (if parseInt (style.fontWeight ?st) = NaN \<or> parseInt (style.fontWeight ?st) = Fin 0
                  then Fin 400 else parseInt (style.fontWeight ?st))"
    by (simp add: weightOr400_def num_truthy_def)
  have wfin: "\<exists>w. ?w = Fin w"
    using parseInt_finite[of "style.fontWeight ?st"] by (auto simp: wt)
  have aa_fin: "?px = Fin px \<and> ?w = Fin w \<longrightarrow>
                ?aa = (if 24 \<le> px \<or> (18.66 \<le> px \<and> 700 \<le> w) then Fin 3 else Fin 4.5)" for px w
    by (auto simp: getRequiredContrastRatio_def isLargeText_def js_ge_def)
  have aa_inf: "?px = PosInf \<longrightarrow> ?aa = Fin 3"
    by (simp add: getRequiredContrastRatio_def isLargeText_def js_ge_def)
  have aa_nan: "?px = NaN \<or> ?px = NegInf \<longrightarrow> ?aa = Fin 4.5"
    by (auto simp: getRequiredContrastRatio_def isLargeText_def js_ge_def)
  have ge_fin: "js_ge (Fin x) (Fin a) = (a \<le> x)" for x a
    by (auto simp: js_ge_def)
  have aa_val: "?aa = Fin 3 \<or> ?aa = Fin 4.5"
    by (simp add: getRequiredContrastRatio_def)
  have aaa_val: "?aaa = Fin 4.5 \<or> ?aaa = Fin 7"
    by simp
  have ge_low: "q = NaN \<or> q = NegInf \<longrightarrow> \<not> js_ge q ?aa \<and> \<not> js_ge q ?aaa"
    using aa_val by (auto simp: js_ge_def)
  have ge_high: "q = PosInf \<longrightarrow> js_ge q ?aa \<and> js_ge q ?aaa"
    using aa_val by (auto simp: js_ge_def)
  show ?thesis
    apply (rule exI[of _ ?r])
    apply (intro conjI)
    subgoal by (rule res)
    subgoal by simp
    subgoal by simp
    subgoal using wt by simp
    subgoal using wfin by simp
    subgoal using aa_fin by simp
    subgoal using aa_inf by simp
    subgoal using aa_nan by simp
    subgoal by simp
    subgoal using ge_fin by auto
    subgoal using ge_fin by auto
    subgoal using ge_low by simp
    subgoal using ge_high by simp
    done
qed

theorem contrast_thresholds_witness:
  "map (\<lambda>(px, w). map_option
          (\<lambda>r. (ratio r, fontSize r, fontWeight r, requiredAARatio r, requiredAAARatio r,
                meetsAA r, meetsAAA r))
          (getContrastRatioForElement lowContrastPage (textOfSize px w)))
     [(''16px'', ''400''), (''25px'', ''400''), (''24px'', ''400''), (''23.99px'', ''400''),
      (''18.66px'', ''700''), (''18.66px'', ''699''), (''18.65px'', ''700''),
      (''20px'', ''700''), (''20px'', ''normal'')]
   = [Some (Fin 4.4, Fin 16, Fin 400, Fin 4.5, Fin 7, False, False),
      Some (Fin 4.4, Fin 25, Fin 400, Fin 3, Fin 4.5, True, False),
      Some (Fin 4.4, Fin 24, Fin 400, Fin 3, Fin 4.5, True, False),
      Some (Fin 4.4, Fin 23.99, Fin 400, Fin 4.5, Fin 7, False, False),
      Some (Fin 4.4, Fin 18.66, Fin 700, Fin 3, Fin 4.5, True, False),
      Some (Fin 4.4, Fin 18.66, Fin 699, Fin 4.5, Fin 7, False, False),
      Some (Fin 4.4, Fin 18.65, Fin 700, Fin 4.5, Fin 7, False, False),
      Some (Fin 4.4, Fin 20, Fin 700, Fin 3, Fin 4.5, True, False),
      Some (Fin 4.4, Fin 20, Fin 400, Fin 4.5, Fin 7, False, False)] \<and>
   map_option
     (\<lambda>r. (ratio r, fontSize r, fontWeight r, requiredAARatio r, requiredAAARatio r,
           meetsAA r, meetsAAA r))
     (getContrastRatioForElement (pageWith []) (textOfSize ''16px'' ''400''))
   = Some (Fin 4.5, Fin 16, Fin 400, Fin 4.5, Fin 7, True, False)"
proof -
  have c: "color (computedStyle (props (fst (textOfSize px w)))) \<noteq> []" for px w
    by (simp add: textOfSize_def plainStyle_def)
  have fs: "style.fontSize (computedStyle (props (fst (textOfSize px w)))) = px" for px w
    by (simp add: textOfSize_def)
  have fw: "style.fontWeight (computedStyle (props (fst (textOfSize px w)))) = w" for px w
    by (simp add: textOfSize_def)
  have q: "calculateContrastRatio lowContrastPage a b = Inr (Fin 4.4)" for a b
    by (simp add: lowContrastPage_def constantContrastRatio_def)
  have g: "\<forall>required. \<exists>sg. suggestContrastImprovements lowContrastPage a b required = Inr sg" for a b
    by (simp add: lowContrastPage_def pageWith_def samplePage_def fallbackSuggestions_def)
  have q': "calculateContrastRatio (pageWith []) a b = Inr (Fin 4.5)" for a b
    by (simp add: pageWith_def samplePage_def fallbackContrastRatio_def)
  have g': "\<forall>required. \<exists>sg. suggestContrastImprovements (pageWith []) a b required = Inr sg" for a b
    by (simp add: pageWith_def samplePage_def fallbackSuggestions_def)
  have gen: "map_option
          (\<lambda>r. (ratio r, fontSize r, fontWeight r, requiredAARatio r, requiredAAARatio r,
                meetsAA r, meetsAAA r))
          (getContrastRatioForElement pg (textOfSize P W))
        = Some (Fin x, Fin p, Fin w,
                if 24 \<le> p \<or> (18.66 \<le> p \<and> 700 \<le> w) then Fin 3 else Fin 4.5,
                if 24 \<le> p \<or> (18.66 \<le> p \<and> 700 \<le> w) then Fin 4.5 else Fin 7,
                if 24 \<le> p \<or> (18.66 \<le> p \<and> 700 \<le> w) then 3 \<le> x else 4.5 \<le> x,
                if 24 \<le> p \<or> (18.66 \<le> p \<and> 700 \<le> w) then 4.5 \<le> x else 7 \<le> x)"
    if pf: "parseFloat P = Fin p"
       and pw: "(if parseInt W = NaN \<or> parseInt W = Fin 0 then Fin 400 else parseInt W) = Fin w"
       and cq: "\<And>a b. calculateContrastRatio pg a b = Inr (Fin x)"
       and sq: "\<And>a b. \<forall>required. \<exists>sg. suggestContrastImprovements pg a b required = Inr sg"
    for pg P W p w x
  proof -
    from contrast_thresholds [of "textOfSize P W" pg, OF c cq sq]
    obtain r where R:
      "getContrastRatioForElement pg (textOfSize P W) = Some r"
      "ratio r = Fin x"
      "fontSize r = parseFloat P"
      "fontWeight r = (if parseInt W = NaN \<or> parseInt W = Fin 0 then Fin 400 else parseInt W)"
      "\<forall>px w. fontSize r = Fin px \<and> fontWeight r = Fin w \<longrightarrow>
                requiredAARatio r =
                  (if 24 \<le> px \<or> (18.66 \<le> px \<and> 700 \<le> w) then Fin 3 else Fin 4.5)"
      "requiredAAARatio r = (if requiredAARatio r = Fin 3 then Fin 4.5 else Fin 7)"
      "\<forall>x' a. Fin x = Fin x' \<and> requiredAARatio r = Fin a \<longrightarrow> meetsAA r = (a \<le> x')"
      "\<forall>x' a. Fin x = Fin x' \<and> requiredAAARatio r = Fin a \<longrightarrow> meetsAAA r = (a \<le> x')"
      unfolding fs fw by (elim exE conjE) (rule that)
    have sz: "fontSize r = Fin p" using R(3) pf by simp
    have wt: "fontWeight r = Fin w" using R(4) pw by simp
    have aa: "requiredAARatio r =
                (if 24 \<le> p \<or> (18.66 \<le> p \<and> 700 \<le> w) then Fin 3 else Fin 4.5)"
      using R(5) sz wt by blast
    show ?thesis
    proof (cases "24 \<le> p \<or> (18.66 \<le> p \<and> 700 \<le> w)")
      case True
      then have a3: "requiredAARatio r = Fin 3" using aa by simp
      then have a45: "requiredAAARatio r = Fin 4.5" using R(6) by simp
      have m1: "meetsAA r = (3 \<le> x)" using R(7) a3 by blast
      have m2: "meetsAAA r = (4.5 \<le> x)" using R(8) a45 by blast
      from True show ?thesis
        by (simp only: R(1) option.map R(2) sz wt a3 a45 m1 m2 if_True)
    next
      case False
      then have a3: "requiredAARatio r = Fin 4.5" using aa by simp
      then have a45: "requiredAAARatio r = Fin 7" using R(6) by simp
      have m1: "meetsAA r = (4.5 \<le> x)" using R(7) a3 by blast
      have m2: "meetsAAA r = (7 \<le> x)" using R(8) a45 by blast
      from False show ?thesis
        by (simp only: R(1) option.map R(2) sz wt a3 a45 m1 m2 if_False)
    qed
  qed
  have p16: "parseFloat ''16px'' = Fin 16"
    by (simp add: parseFloat_def signOf_def isWhiteSpace_def startsWith_def isDigit_def
          digitsVal_def digitVal_def exponentOf_def scale10_def)
  have p25: "parseFloat ''25px'' = Fin 25"
    by (simp add: parseFloat_def signOf_def isWhiteSpace_def startsWith_def isDigit_def
          digitsVal_def digitVal_def exponentOf_def scale10_def)
  have p24: "parseFloat ''24px'' = Fin 24"
    by (simp add: parseFloat_def signOf_def isWhiteSpace_def startsWith_def isDigit_def
          digitsVal_def digitVal_def exponentOf_def scale10_def)
  have p2399: "parseFloat ''23.99px'' = Fin 23.99"
    by (simp add: parseFloat_def signOf_def isWhiteSpace_def startsWith_def isDigit_def
          digitsVal_def digitVal_def exponentOf_def scale10_def)
  have p1866: "parseFloat ''18.66px'' = Fin 18.66"
    by (simp add: parseFloat_def signOf_def isWhiteSpace_def startsWith_def isDigit_def
          digitsVal_def digitVal_def exponentOf_def scale10_def)
  have p1865: "parseFloat ''18.65px'' = Fin 18.65"
    by (simp add: parseFloat_def signOf_def isWhiteSpace_def startsWith_def isDigit_def
          digitsVal_def digitVal_def exponentOf_def scale10_def)
  have p20: "parseFloat ''20px'' = Fin 20"
    by (simp add: parseFloat_def signOf_def isWhiteSpace_def startsWith_def isDigit_def
          digitsVal_def digitVal_def exponentOf_def scale10_def)
  have w400: "parseInt ''400'' = Fin 400"
    by (simp add: parseInt_def signOf_def isWhiteSpace_def startsWith_def isDigit_def
          digitsVal_def digitVal_def)
  have w700: "parseInt ''700'' = Fin 700"
    by (simp add: parseInt_def signOf_def isWhiteSpace_def startsWith_def isDigit_def
          digitsVal_def digitVal_def)
  have w699: "parseInt ''699'' = Fin 699"
    by (simp add: parseInt_def signOf_def isWhiteSpace_def startsWith_def isDigit_def
          digitsVal_def digitVal_def)
  have wn: "parseInt ''normal'' = NaN"
    by (simp add: parseInt_def signOf_def isWhiteSpace_def startsWith_def isDigit_def
          digitsVal_def digitVal_def)
  have k1: "map_option
          (\<lambda>r. (ratio r, fontSize r, fontWeight r, requiredAARatio r, requiredAAARatio r,
                meetsAA r, meetsAAA r))
          (getContrastRatioForElement lowContrastPage (textOfSize ''16px'' ''400''))
        = Some (Fin 4.4, Fin 16, Fin 400, Fin 4.5, Fin 7, False, False)"
    using gen [where pg = "lowContrastPage" and P = "''16px''" and W = "''400''" and p = "16" and w = 400 and x = "4.4", OF _ _ q g] by (simp add: p16 w400)
  have k2: "map_option
          (\<lambda>r. (ratio r, fontSize r, fontWeight r, requiredAARatio r, requiredAAARatio r,
                meetsAA r, meetsAAA r))
          (getContrastRatioForElement lowContrastPage (textOfSize ''25px'' ''400''))
        = Some (Fin 4.4, Fin 25, Fin 400, Fin 3, Fin 4.5, True, False)"
    using gen [where pg = "lowContrastPage" and P = "''25px''" and W = "''400''" and p = "25" and w = 400 and x = "4.4", OF _ _ q g] by (simp add: p25 w400)
  have k3: "map_option
          (\<lambda>r. (ratio r, fontSize r, fontWeight r, requiredAARatio r, requiredAAARatio r,
                meetsAA r, meetsAAA r))
          (getContrastRatioForElement lowContrastPage (textOfSize ''24px'' ''400''))
        = Some (Fin 4.4, Fin 24, Fin 400, Fin 3, Fin 4.5, True, False)"
    using gen [where pg = "lowContrastPage" and P = "''24px''" and W = "''400''" and p = "24" and w = 400 and x = "4.4", OF _ _ q g] by (simp add: p24 w400)
  have k4: "map_option
          (\<lambda>r. (ratio r, fontSize r, fontWeight r, requiredAARatio r, requiredAAARatio r,
                meetsAA r, meetsAAA r))
          (getContrastRatioForElement lowContrastPage (textOfSize ''23.99px'' ''400''))
        = Some (Fin 4.4, Fin 23.99, Fin 400, Fin 4.5, Fin 7, False, False)"
    using gen [where pg = "lowContrastPage" and P = "''23.99px''" and W = "''400''" and p = "23.99" and w = 400 and x = "4.4", OF _ _ q g] by (simp add: p2399 w400)
  have k5: "map_option
          (\<lambda>r. (ratio r, fontSize r, fontWeight r, requiredAARatio r, requiredAAARatio r,
                meetsAA r, meetsAAA r))
          (getContrastRatioForElement lowContrastPage (textOfSize ''18.66px'' ''700''))
        = Some (Fin 4.4, Fin 18.66, Fin 700, Fin 3, Fin 4.5, True, False)"
    using gen [where pg = "lowContrastPage" and P = "''18.66px''" and W = "''700''" and p = "18.66" and w = 700 and x = "4.4", OF _ _ q g] by (simp add: p1866 w700)
  have k6: "map_option
          (\<lambda>r. (ratio r, fontSize r, fontWeight r, requiredAARatio r, requiredAAARatio r,
                meetsAA r, meetsAAA r))
          (getContrastRatioForElement lowContrastPage (textOfSize ''18.66px'' ''699''))
        = Some (Fin 4.4, Fin 18.66, Fin 699, Fin 4.5, Fin 7, False, False)"
    using gen [where pg = "lowContrastPage" and P = "''18.66px''" and W = "''699''" and p = "18.66" and w = 699 and x = "4.4", OF _ _ q g] by (simp add: p1866 w699)
  have k7: "map_option
          (\<lambda>r. (ratio r, fontSize r, fontWeight r, requiredAARatio r, requiredAAARatio r,
                meetsAA r, meetsAAA r))
          (getContrastRatioForElement lowContrastPage (textOfSize ''18.65px'' ''700''))
        = Some (Fin 4.4, Fin 18.65, Fin 700, Fin 4.5, Fin 7, False, False)"
    using gen [where pg = "lowContrastPage" and P = "''18.65px''" and W = "''700''" and p = "18.65" and w = 700 and x = "4.4", OF _ _ q g] by (simp add: p1865 w700)
  have k8: "map_option
          (\<lambda>r. (ratio r, fontSize r, fontWeight r, requiredAARatio r, requiredAAARatio r,
                meetsAA r, meetsAAA r))
          (getContrastRatioForElement lowContrastPage (textOfSize ''20px'' ''700''))
        = Some (Fin 4.4, Fin 20, Fin 700, Fin 3, Fin 4.5, True, False)"
    using gen [where pg = "lowContrastPage" and P = "''20px''" and W = "''700''" and p = "20" and w = 700 and x = "4.4", OF _ _ q g] by (simp add: p20 w700)
  have k9: "map_option
          (\<lambda>r. (ratio r, fontSize r, fontWeight r, requiredAARatio r, requiredAAARatio r,
                meetsAA r, meetsAAA r))
          (getContrastRatioForElement lowContrastPage (textOfSize ''20px'' ''normal''))
        = Some (Fin 4.4, Fin 20, Fin 400, Fin 4.5, Fin 7, False, False)"
    using gen [where pg = "lowContrastPage" and P = "''20px''" and W = "''normal''" and p = "20" and w = 400 and x = "4.4", OF _ _ q g] by (simp add: p20 wn)
  have k10: "map_option
     (\<lambda>r. (ratio r, fontSize r, fontWeight r, requiredAARatio r, requiredAAARatio r,
           meetsAA r, meetsAAA r))
     (getContrastRatioForElement (pageWith []) (textOfSize ''16px'' ''400''))
   = Some (Fin 4.5, Fin 16, Fin 400, Fin 4.5, Fin 7, True, False)"
    using gen [where pg = "pageWith []" and P = "''16px''" and W = "''400''" and p = "16" and w = 400 and x = "4.5", OF _ _ q' g']
    by (simp add: p16 w400)
  show ?thesis
    using k1 k2 k3 k4 k5 k6 k7 k8 k9 k10 by simp
qed

section \<open>Collecting the text elements\<close>

lemma getTextElements_loop_take:
  "length acc \<le> 1500 \<Longrightarrow>
   getTextElements_loop s xs acc = acc @ take (1501 - length acc) (filter (textBearing s) xs)"
proof (induction xs arbitrary: acc)
  case Nil
  show ?case by simp
next
  case (Cons n xs)
  show ?case
  proof (cases "textBearing s n")
    case False
    with Cons show ?thesis
      by (auto simp: textBearing_def Let_def)
  next
    case True
    show ?thesis
    proof (cases "length acc = 1500")
      case full: True
      with True show ?thesis
        by (simp add: textBearing_def Let_def)
    next
      case False
      with Cons.prems have lt: "length acc < 1500" by simp
      then have le: "length (acc @ [n]) \<le> 1500" by simp
      have step: "1501 - length acc = Suc (1501 - length (acc @ [n]))"
        using lt by simp
      from True lt Cons.IH[OF le] show ?thesis
        by (simp add: textBearing_def Let_def step del: length_append)
    qed
  qed
qed

lemma getTextElements_characterised:
  "getTextElements s =
     (case body s of
        None \<Rightarrow> []
      | Some b \<Rightarrow> take 1501 (filter (textBearing s) (descendants (snd b) (fst b))))"
  by (simp add: getTextElements_def getTextElements_try_def getTextElements_loop_take
        split: option.splits)

lemma concat_replicate_single: "concat (replicate k [y]) = replicate k y"
  by (induction k) simp_all

lemma descendants_of_leaves:
  "descendants anc (Element p (replicate k (Element q []))) =
     replicate k (Element q [], Element p (replicate k (Element q [])) # anc)"
  by (simp add: concat_replicate_single)

lemma body_crowded:
  "body crowdedPage =
     Some (Element (sampleProps ''BODY'' ''body'' [] [] ''rgba(0, 0, 0, 0)'' ''16px'')
             (replicate 2000 (Element (sampleProps ''P'' ''p'' [] ''text'' ''rgba(0, 0, 0, 0)'' ''16px'') [])),
           [documentElement crowdedPage])"
  by (simp add: body_def crowdedPage_def pageWith_def samplePage_def sampleElement_def
        hasName_def sampleProps_def Let_def)


lemma paragraph_textBearing:
  "textBearing crowdedPage
     (Element (sampleProps ''P'' ''p'' [] ''text'' ''rgba(0, 0, 0, 0)'' ''16px'') [], anc)"
  by (simp add: textBearing_def isElementVisible_def isElementVisible_try_def Let_def
        sampleProps_def plainStyle_def onScreen_def crowdedPage_def pageWith_def samplePage_def
        textOf_def trim_def isWhiteSpace_def)

text \<open>
  Claim C4. The collection walks the descendants of the body in document order and keeps
  the visible elements with text, as the lemma above says; but the loop stops only when
  the array is longer than 1500, so that on a page with 2000 visible paragraphs it returns
  1501 elements, one more than the cap of the claim. The contrast check then evaluates the
  first 1000.
\<close>

theorem crowded_page_collects_1501:
  "length (getTextElements crowdedPage) = 1501 \<and>
   length (contrastCandidates crowdedPage) = 1000"
proof -
  have "getTextElements crowdedPage =
          replicate 1501
            (Element (sampleProps ''P'' ''p'' [] ''text'' ''rgba(0, 0, 0, 0)'' ''16px'') [],
             [Element (sampleProps ''BODY'' ''body'' [] [] ''rgba(0, 0, 0, 0)'' ''16px'')
                (replicate 2000 (Element (sampleProps ''P'' ''p'' [] ''text'' ''rgba(0, 0, 0, 0)'' ''16px'') [])),
              documentElement crowdedPage])"
    by (simp add: getTextElements_characterised body_crowded descendants_of_leaves
          paragraph_textBearing)
  then show ?thesis
    by (simp add: contrastCandidates_def)
qed

section \<open>Resolving the background\<close>

lemma getBackgroundColor_loop_find:
  "getBackgroundColor_loop e anc =
     map_option backgroundOf (find (\<lambda>x. opaqueEnough (backgroundOf x)) (butlast (e # anc)))"
  by (induction anc arbitrary: e) (simp_all add: Let_def)

lemma digit_not_space: "isDigit c \<Longrightarrow> \<not> isWhiteSpace c"
  by (auto simp: isDigit_def isWhiteSpace_def)

lemma alphaChar_not_space: "isAlphaChar c \<Longrightarrow> \<not> isWhiteSpace c"
  by (auto simp: isAlphaChar_def isDigit_def isWhiteSpace_def)

lemma takeWhile_run: "\<forall>c \<in> set r. P c \<Longrightarrow> \<not> P x \<Longrightarrow> takeWhile P (r @ x # t) = r"
  by (induction r) simp_all

lemma dropWhile_run: "\<forall>c \<in> set r. P c \<Longrightarrow> \<not> P x \<Longrightarrow> dropWhile P (r @ x # t) = x # t"
  by (induction r) simp_all

lemma matchComponent_run:
  assumes "r \<noteq> []" "\<forall>c \<in> set r. isDigit c" "\<forall>c \<in> set w. isWhiteSpace c" "\<not> isWhiteSpace x"
  shows "matchComponent (r @ CHR '','' # w @ x # t) = Some (x # t)"
proof -
  have nd: "\<not> isDigit CHR '',''" by (simp add: isDigit_def)
  have tw: "takeWhile isDigit (r @ CHR '','' # w @ x # t) = r"
    using assms(2) nd by (rule takeWhile_run)
  have dw: "dropWhile isDigit (r @ CHR '','' # w @ x # t) = CHR '','' # w @ x # t"
    using assms(2) nd by (rule dropWhile_run)
  have ws: "dropWhile isWhiteSpace (w @ x # t) = x # t"
    using assms(3,4) by (rule dropWhile_run)
  show ?thesis
    using assms(1) by (simp add: matchComponent_def matchDigits_def matchChar_def tw dw ws)
qed

lemma matchRgbaAt_canonical:
  assumes r: "r \<noteq> []" "\<forall>c \<in> set r. isDigit c"
      and g: "g \<noteq> []" "\<forall>c \<in> set g. isDigit c"
      and b: "b \<noteq> []" "\<forall>c \<in> set b. isDigit c"
      and a: "a \<noteq> []" "\<forall>c \<in> set a. isAlphaChar c"
      and w: "\<forall>c \<in> set w1. isWhiteSpace c" "\<forall>c \<in> set w2. isWhiteSpace c"
             "\<forall>c \<in> set w3. isWhiteSpace c"
  shows "matchRgbaAt (''rgba('' @ r @ '','' @ w1 @ g @ '','' @ w2 @ b @ '','' @ w3 @ a @ '')'' @ t)
           = Some a"
proof -
  obtain g0 g' where g0: "g = g0 # g'" using g(1) by (cases g) auto
  obtain b0 b' where b0: "b = b0 # b'" using b(1) by (cases b) auto
  obtain a0 a' where a0: "a = a0 # a'" using a(1) by (cases a) auto
  have sg: "\<not> isWhiteSpace g0" using g(2) g0 digit_not_space by simp
  have sb: "\<not> isWhiteSpace b0" using b(2) b0 digit_not_space by simp
  have sa: "\<not> isWhiteSpace a0" using a(2) a0 alphaChar_not_space by simp
  have c1: "matchComponent (r @ CHR '','' # w1 @ g0 # (g' @ '','' @ w2 @ b @ '','' @ w3 @ a @ '')'' @ t))
              = Some (g0 # (g' @ '','' @ w2 @ b @ '','' @ w3 @ a @ '')'' @ t))"
    using r w(1) sg by (rule matchComponent_run)
  have c2: "matchComponent (g @ CHR '','' # w2 @ b0 # (b' @ '','' @ w3 @ a @ '')'' @ t))
              = Some (b0 # (b' @ '','' @ w3 @ a @ '')'' @ t))"
    using g w(2) sb by (rule matchComponent_run)
  have c3: "matchComponent (b @ CHR '','' # w3 @ a0 # (a' @ '')'' @ t))
              = Some (a0 # (a' @ '')'' @ t))"
    using b w(3) sa by (rule matchComponent_run)
  have np: "\<not> isAlphaChar CHR '')''" by (simp add: isAlphaChar_def isDigit_def)
  have ta: "takeWhile isAlphaChar (a @ CHR '')'' # t) = a"
    using a(2) np by (rule takeWhile_run)
  have da: "dropWhile isAlphaChar (a @ CHR '')'' # t) = CHR '')'' # t"
    using a(2) np by (rule dropWhile_run)
  show ?thesis
    using c1 c2 c3 ta da a(1)
    by (simp add: matchRgbaAt_def startsWith_def g0 b0 a0)
qed

lemma getAlphaFromColor_canonical:
  assumes r: "r \<noteq> []" "\<forall>c \<in> set r. isDigit c"
      and g: "g \<noteq> []" "\<forall>c \<in> set g. isDigit c"
      and b: "b \<noteq> []" "\<forall>c \<in> set b. isDigit c"
      and a: "a \<noteq> []" "\<forall>c \<in> set a. isAlphaChar c"
      and w: "\<forall>c \<in> set w1. isWhiteSpace c" "\<forall>c \<in> set w2. isWhiteSpace c"
             "\<forall>c \<in> set w3. isWhiteSpace c"
  shows "getAlphaFromColor (''rgba('' @ r @ '','' @ w1 @ g @ '','' @ w2 @ b @ '','' @ w3 @ a @ '')'')
           = parseFloat a"
proof -
  have "matchRgbaAt (''rgba('' @ r @ '','' @ w1 @ g @ '','' @ w2 @ b @ '','' @ w3 @ a @ '')'' @ [])
           = Some a"
    using assms by (rule matchRgbaAt_canonical)
  then show ?thesis
    by (simp add: getAlphaFromColor_def startsWith_def)
qed

lemma find_Some_holds: "find P xs = Some x \<Longrightarrow> P x"
  by (induction xs) (auto split: if_splits)

text \<open>
  Claim C3 as it is written does not hold: the walk starts at the element itself, not at
  its parent. A paragraph with a yellow background inside a blue body resolves to yellow,
  its own background, where the first ancestor with an opaque background is blue.
\<close>

theorem own_background_comes_first:
  "getBackgroundColor yellowParagraph = ''rgb(255, 255, 0)'' \<and>
   backgroundOf (fst yellowParagraph) = ''rgb(255, 255, 0)'' \<and>
   map backgroundOf (snd yellowParagraph) = [''rgb(0, 0, 255)'', ''rgba(0, 0, 0, 0)'']"
  by code_simp

text \<open>
  Claim C3, amended. \<open>getBackgroundColor\<close> walks the element itself and then its
  ancestors, the document element excluded, and returns the background colour of the first
  of them whose background colour is not empty, is neither \<open>rgba(0, 0, 0, 0)\<close> nor
  \<open>transparent\<close>, and has an alpha above 0.1; it returns white when there is none. The
  alpha of a text that does not start with \<open>rgba\<close> or that the pattern does not match
  is 1; the alpha of \<open>rgba(r, g, b, a)\<close>, with digits for the components and digits
  and dots for \<open>a\<close>, is \<open>a\<close> as \<open>parseFloat\<close> reads it.
\<close>

theorem getBackgroundColor_first_opaque:
  "getBackgroundColor n =
     (case find (\<lambda>x. backgroundOf x \<noteq> [] \<and> backgroundOf x \<noteq> ''rgba(0, 0, 0, 0)'' \<and>
                      backgroundOf x \<noteq> ''transparent'' \<and>
                      js_greater (getAlphaFromColor (backgroundOf x)) (Fin 0.1))
                (butlast (fst n # snd n)) of
        Some x \<Rightarrow> backgroundOf x
      | None \<Rightarrow> ''rgb(255, 255, 255)'') \<and>
   (\<not> startsWith c ''rgba'' \<or> matchRgba c = None \<longrightarrow> getAlphaFromColor c = Fin 1) \<and>
   (r \<noteq> [] \<and> (\<forall>x \<in> set r. isDigit x) \<and> g \<noteq> [] \<and> (\<forall>x \<in> set g. isDigit x) \<and>
    b \<noteq> [] \<and> (\<forall>x \<in> set b. isDigit x) \<and> a \<noteq> [] \<and> (\<forall>x \<in> set a. isDigit x \<or> x = CHR ''.'') \<and>
    (\<forall>x \<in> set w1. isWhiteSpace x) \<and> (\<forall>x \<in> set w2. isWhiteSpace x) \<and>
    (\<forall>x \<in> set w3. isWhiteSpace x)
    \<longrightarrow> getAlphaFromColor (''rgba('' @ r @ '','' @ w1 @ g @ '','' @ w2 @ b @ '','' @ w3 @ a @ '')'')
          = parseFloat a)"
proof (intro conjI impI)
  have op: "opaqueEnough = (\<lambda>c. c \<noteq> [] \<and> c \<noteq> ''rgba(0, 0, 0, 0)'' \<and> c \<noteq> ''transparent'' \<and>
                      js_greater (getAlphaFromColor c) (Fin 0.1))"
    by (rule ext) (simp add: opaqueEnough_def)
  have ne: "opaqueEnough (backgroundOf x) \<Longrightarrow> backgroundOf x \<noteq> []" for x
    by (simp add: opaqueEnough_def)
  have "getBackgroundColor n =
     (case find (\<lambda>x. opaqueEnough (backgroundOf x)) (butlast (fst n # snd n)) of
        Some x \<Rightarrow> backgroundOf x
      | None \<Rightarrow> ''rgb(255, 255, 255)'')"
    by (auto simp: getBackgroundColor_def getBackgroundColor_loop_find ne
          split: option.splits dest: find_Some_holds)
  then show "getBackgroundColor n =
     (case find (\<lambda>x. backgroundOf x \<noteq> [] \<and> backgroundOf x \<noteq> ''rgba(0, 0, 0, 0)'' \<and>
                      backgroundOf x \<noteq> ''transparent'' \<and>
                      js_greater (getAlphaFromColor (backgroundOf x)) (Fin 0.1))
                (butlast (fst n # snd n)) of
        Some x \<Rightarrow> backgroundOf x
      | None \<Rightarrow> ''rgb(255, 255, 255)'')"
    by (simp add: op)
next
  assume "\<not> startsWith c ''rgba'' \<or> matchRgba c = None"
  then show "getAlphaFromColor c = Fin 1"
    by (auto simp: getAlphaFromColor_def)
next
  assume h: "r \<noteq> [] \<and> (\<forall>x \<in> set r. isDigit x) \<and> g \<noteq> [] \<and> (\<forall>x \<in> set g. isDigit x) \<and>
    b \<noteq> [] \<and> (\<forall>x \<in> set b. isDigit x) \<and> a \<noteq> [] \<and> (\<forall>x \<in> set a. isDigit x \<or> x = CHR ''.'') \<and>
    (\<forall>x \<in> set w1. isWhiteSpace x) \<and> (\<forall>x \<in> set w2. isWhiteSpace x) \<and>
    (\<forall>x \<in> set w3. isWhiteSpace x)"
  then have "\<forall>x \<in> set a. isAlphaChar x" by (simp add: isAlphaChar_def)
  with h show "getAlphaFromColor (''rgba('' @ r @ '','' @ w1 @ g @ '','' @ w2 @ b @ '','' @ w3 @ a @ '')'')
          = parseFloat a"
    by (intro getAlphaFromColor_canonical) simp_all
qed

theorem getBackgroundColor_first_opaque_witness:
  "getAlphaFromColor ''rgba(10, 20, 30, 0.05)'' = Fin 0.05 \<and>
   getAlphaFromColor ''rgb(0, 0, 255)'' = Fin 1 \<and>
   map backgroundOf (fst faintParagraph # snd faintParagraph)
     = [''rgba(10, 20, 30, 0.05)'', ''rgb(0, 0, 255)'', ''rgb(255, 0, 0)''] \<and>
   getBackgroundColor faintParagraph = ''rgb(0, 0, 255)'' \<and>
   getBackgroundColor redRootParagraph = ''rgb(255, 255, 255)''"
proof -
  note t = getBackgroundColor_first_opaque
             [of faintParagraph "''rgb(0, 0, 255)''" "''10''" "''20''" "''30''" "''0.05''"
                 "'' ''" "'' ''" "'' ''"]
  have pf: "parseFloat ''0.05'' = Fin 0.05"
    by (simp add: parseFloat_def signOf_def isWhiteSpace_def startsWith_def isDigit_def
          digitsVal_def digitVal_def exponentOf_def scale10_def)
  have faint: "getAlphaFromColor ''rgba(10, 20, 30, 0.05)'' = Fin 0.05"
    using t pf by (simp add: isDigit_def isWhiteSpace_def)
  have blue: "getAlphaFromColor ''rgb(0, 0, 255)'' = Fin 1"
    using t by (simp add: startsWith_def)
  have bgs: "map backgroundOf (fst faintParagraph # snd faintParagraph)
     = [''rgba(10, 20, 30, 0.05)'', ''rgb(0, 0, 255)'', ''rgb(255, 0, 0)'']"
    by (simp add: faintParagraph_def backgroundOf_def sampleProps_def)
  have "getBackgroundColor faintParagraph = ''rgb(0, 0, 255)''"
    using t bgs faint blue by (simp add: faintParagraph_def js_greater_def)
  moreover have "getBackgroundColor redRootParagraph = ''rgb(255, 255, 255)''"
    using getBackgroundColor_first_opaque [of redRootParagraph]
    by (simp add: redRootParagraph_def backgroundOf_def sampleProps_def)
  ultimately show ?thesis using faint blue bgs by simp
qed

section \<open>Headings\<close>

lemma headings_of_runBasicChecks:
  "filter (\<lambda>f. category f = ''headings'') (runBasicChecks s) = basicHeadingsIssue s"
proof -
  have img: "filter (\<lambda>f. category f = ''headings'')
               (concat (map (\<lambda>n. imageIssue s (fst n)) ns)) = []" for ns :: "node list"
    by (rule allCategory_filter_other[OF allCategory_concat_map[of "''images''"]])
       (simp_all add: category_imageIssue)
  have lang: "filter (\<lambda>f. category f = ''headings'') (langIssue s) = []"
    by (rule allCategory_filter_other[OF category_langIssue]) simp
  have forms: "filter (\<lambda>f. category f = ''headings'') (fst (formsLoop s ns)) = []" for ns
    by (rule allCategory_filter_other[OF category_formsLoop]) simp
  have own: "filter (\<lambda>f. category f = ''headings'') (basicHeadingsIssue s) = basicHeadingsIssue s"
    by (rule allCategory_filter_same[OF category_basicHeadingsIssue])
  have "filter (\<lambda>f. category f = ''headings'') (fst (runBasicChecks_try s)) = basicHeadingsIssue s"
    by (simp add: runBasicChecks_try_def Let_def img lang forms own)
  then show ?thesis
    by (simp add: runBasicChecks_def pageIssue_def split: option.splits)
qed

lemma headings_of_specializedChecks:
  "filter (\<lambda>f. category f = ''headings'') (specializedChecks s) = []"
  using allCategory_filter_other[OF category_checkColorContrast, of "''headings''" s]
        allCategory_filter_other[OF category_checkAriaAttributes, of "''headings''" s]
        allCategory_filter_other[OF category_checkKeyboardNavigation, of "''headings''" s]
        allCategory_filter_other[OF category_checkSemanticMarkup, of "''headings''" s]
        allCategory_filter_other[OF category_langIssue, of "''headings''" s]
  by (simp add: specializedChecks_def checkLanguage_def)

lemma category_elementIssue_popup:
  "elementIssue_popup ty c msg e = Inr fs \<Longrightarrow> allCategory c fs"
  by (auto simp: elementIssue_popup_def allCategory_def split: sum.splits)

lemma category_forEachIssue:
  "(\<And>x fs. f x = Inr fs \<Longrightarrow> allCategory c fs) \<Longrightarrow>
   forEachIssue f xs = Inr out \<Longrightarrow> allCategory c out"
proof (induction xs arbitrary: out)
  case Nil
  then show ?case by (simp add: allCategory_Nil)
next
  case (Cons x xs)
  then show ?case
    by (auto simp: allCategory_append split: sum.splits)
qed

lemma category_imageIssues_popup: "imageIssues_popup s = Inr fs \<Longrightarrow> allCategory ''images'' fs"
  unfolding imageIssues_popup_def
  by (erule category_forEachIssue[rotated]) (rule category_elementIssue_popup)

lemma category_checkAriaAttributes_popup:
  "checkAriaAttributes_popup s = Inr fs \<Longrightarrow> allCategory ''aria'' fs"
  unfolding checkAriaAttributes_popup_def
  by (erule category_forEachIssue[rotated])
     (auto simp: allCategory_Nil split: if_splits dest: category_elementIssue_popup)

lemma category_checkKeyboardNavigation_popup:
  "checkKeyboardNavigation_popup s = Inr fs \<Longrightarrow> allCategory ''keyboard'' fs"
  unfolding checkKeyboardNavigation_popup_def
  by (erule category_forEachIssue[rotated])
     (auto simp: allCategory_Nil split: if_splits dest: category_elementIssue_popup)

lemma category_checkSemanticMarkup_popup:
  "checkSemanticMarkup_popup s = Inr fs \<Longrightarrow> allCategory ''semantics'' fs"
  unfolding checkSemanticMarkup_popup_def
  by (erule category_forEachIssue[rotated]) (rule category_elementIssue_popup)

lemma getSelector_popup_returns:
  "className (props e) \<noteq> None \<Longrightarrow> \<exists>sel. getSelector_popup e = Inr sel"
  by (auto simp: getSelector_popup_def Let_def split: option.splits)

lemma elementIssue_popup_returns:
  "className (props e) \<noteq> None \<Longrightarrow> \<exists>fs. elementIssue_popup ty c msg e = Inr fs"
  using getSelector_popup_returns[of e]
  by (auto simp: elementIssue_popup_def)

lemma forEachIssue_returns:
  "\<forall>x \<in> set xs. \<exists>fs. f x = Inr fs \<Longrightarrow> \<exists>out. forEachIssue f xs = Inr out"
  by (induction xs) auto

lemma query_subset: "set (querySelectorAll s m) \<subseteq> set (allElements s)"
  by (auto simp: querySelectorAll_def)

lemma runA11yChecks_popup_returns:
  assumes "\<forall>n \<in> set (allElements s). className (props (fst n)) \<noteq> None"
  shows "\<exists>r. runA11yChecks_popup s = Inr r"
proof -
  have cb: "\<exists>fs. elementIssue_popup ty c msg (fst n) = Inr fs"
    if "n \<in> set (querySelectorAll s m)" for ty c msg n m
    using that assms query_subset[of s m] elementIssue_popup_returns by blast
  have i: "\<exists>out. imageIssues_popup s = Inr out"
    unfolding imageIssues_popup_def by (rule forEachIssue_returns) (simp add: cb)
  have a: "\<exists>out. checkAriaAttributes_popup s = Inr out"
    unfolding checkAriaAttributes_popup_def by (rule forEachIssue_returns) (simp add: cb)
  have k: "\<exists>out. checkKeyboardNavigation_popup s = Inr out"
    unfolding checkKeyboardNavigation_popup_def by (rule forEachIssue_returns) (simp add: cb)
  have m: "\<exists>out. checkSemanticMarkup_popup s = Inr out"
    unfolding checkSemanticMarkup_popup_def by (rule forEachIssue_returns) (simp add: cb)
  from i a k m show ?thesis
    by (auto simp: runA11yChecks_popup_def Let_def)
qed

lemma headings_of_popup:
  assumes "runA11yChecks_popup s = Inr r"
  shows "filter (\<lambda>f. category f = ''headings'') (issues r) = headingsIssue_popup s"
proof -
  from assms obtain images aria keyboard semantic where
    i: "imageIssues_popup s = Inr images" and
    a: "checkAriaAttributes_popup s = Inr aria" and
    k: "checkKeyboardNavigation_popup s = Inr keyboard" and
    m: "checkSemanticMarkup_popup s = Inr semantic" and
    r: "issues r = images @ headingsIssue_popup s @ checkColorContrast_popup s @
                   aria @ keyboard @ semantic"
    by (auto simp: runA11yChecks_popup_def Let_def split: sum.splits)
  have own: "filter (\<lambda>f. category f = ''headings'') (headingsIssue_popup s) = headingsIssue_popup s"
    by (simp add: headingsIssue_popup_def pageIssue_def)
  show ?thesis
    using allCategory_filter_other[OF category_imageIssues_popup[OF i], of "''headings''"]
          allCategory_filter_other[OF category_checkAriaAttributes_popup[OF a], of "''headings''"]
          allCategory_filter_other[OF category_checkKeyboardNavigation_popup[OF k], of "''headings''"]
          allCategory_filter_other[OF category_checkSemanticMarkup_popup[OF m], of "''headings''"]
    by (simp add: r own checkColorContrast_popup_def)
qed

text \<open>
  Claim C7 as it is written does not hold for the content script with the basic checks:
  they look for \<open>h1\<close> only. On a page whose only heading is an \<open>h2\<close>, the report has
  a headings finding, "No H1 heading found".
\<close>

theorem no_h1_yields_headings_finding:
  "localNames (querySelectorAll h2Page isHeading) = [''h2''] \<and>
   map category (issues (runA11yChecks h2Page)) = [''headings''] \<and>
   map message (issues (runA11yChecks h2Page)) = [Text ''No H1 heading found'']"
  by code_simp

text \<open>
  Claim C7, amended. The basic checks push exactly one headings finding, a warning with
  neither snippet nor selector, when the page has no \<open>h1\<close> element, and none otherwise;
  these are the headings findings of the report when the rule module is not available.
  When the rule module is available, the fallback included, the basic checks do not run and
  the report has the headings findings of the rule module only.
  The simple checker, when it returns, has exactly one headings finding of that shape when
  the page has no element among \<open>h1\<close> to \<open>h6\<close>, and none otherwise; it returns
  whenever the class name of every element is a string. A page with an \<open>h2\<close> and no
  \<open>h1\<close> gets the finding from the first and not from the second.
\<close>

theorem headings_findings:
  "filter (\<lambda>f. category f = ''headings'') (runBasicChecks s) =
     (if querySelectorAll s (hasName ''h1'') = []
      then [\<lparr>type = ''warning'', category = ''headings'', message = Text ''No H1 heading found'',
             element = None, selector = None, details = None\<rparr>]
      else []) \<and>
   (A11yRuleUtils s = None \<longrightarrow>
      filter (\<lambda>f. category f = ''headings'') (issues (runA11yChecks s)) =
        (if querySelectorAll s (hasName ''h1'') = []
         then [\<lparr>type = ''warning'', category = ''headings'', message = Text ''No H1 heading found'',
                element = None, selector = None, details = None\<rparr>]
         else [])) \<and>
   (A11yRuleUtils s = Some (Inr rs) \<longrightarrow>
      filter (\<lambda>f. category f = ''headings'') (issues (runA11yChecks s)) =
        filter (\<lambda>f. category f = ''headings'') rs) \<and>
   (runA11yChecks_popup s = Inr r \<longrightarrow>
      filter (\<lambda>f. category f = ''headings'') (issues r) =
        (if querySelectorAll s isHeading = []
         then [\<lparr>type = ''warning'', category = ''headings'', message = Text noHeadingsMessage,
                element = None, selector = None, details = None\<rparr>]
         else [])) \<and>
   ((\<forall>n \<in> set (allElements s). className (props (fst n)) \<noteq> None) \<longrightarrow>
      (\<exists>r'. runA11yChecks_popup s = Inr r'))"
proof (intro conjI impI)
  show b: "filter (\<lambda>f. category f = ''headings'') (runBasicChecks s) =
     (if querySelectorAll s (hasName ''h1'') = []
      then [\<lparr>type = ''warning'', category = ''headings'', message = Text ''No H1 heading found'',
             element = None, selector = None, details = None\<rparr>]
      else [])"
    by (simp add: headings_of_runBasicChecks basicHeadingsIssue_def pageIssue_def)
  assume "A11yRuleUtils s = None"
  then show "filter (\<lambda>f. category f = ''headings'') (issues (runA11yChecks s)) =
        (if querySelectorAll s (hasName ''h1'') = []
         then [\<lparr>type = ''warning'', category = ''headings'', message = Text ''No H1 heading found'',
                element = None, selector = None, details = None\<rparr>]
         else [])"
    using b by (simp add: issues_cases headings_of_specializedChecks)
next
  assume "A11yRuleUtils s = Some (Inr rs)"
  then show "filter (\<lambda>f. category f = ''headings'') (issues (runA11yChecks s)) =
        filter (\<lambda>f. category f = ''headings'') rs"
    by (simp add: issues_cases headings_of_specializedChecks)
next
  assume "runA11yChecks_popup s = Inr r"
  then show "filter (\<lambda>f. category f = ''headings'') (issues r) =
        (if querySelectorAll s isHeading = []
         then [\<lparr>type = ''warning'', category = ''headings'', message = Text noHeadingsMessage,
                element = None, selector = None, details = None\<rparr>]
         else [])"
    by (simp add: headings_of_popup headingsIssue_popup_def pageIssue_def)
next
  assume "\<forall>n \<in> set (allElements s). className (props (fst n)) \<noteq> None"
  then show "\<exists>r'. runA11yChecks_popup s = Inr r'"
    by (rule runA11yChecks_popup_returns)
qed

theorem headings_findings_witness:
  "A11yRuleUtils h2Page = None \<and>
   querySelectorAll h2Page (hasName ''h1'') = [] \<and>
   localNames (querySelectorAll h2Page isHeading) = [''h2''] \<and>
   filter (\<lambda>f. category f = ''headings'') (issues (runA11yChecks h2Page)) =
     [\<lparr>type = ''warning'', category = ''headings'', message = Text ''No H1 heading found'',
       element = None, selector = None, details = None\<rparr>] \<and>
   A11yRuleUtils fallbackPage = Some (Inr []) \<and>
   querySelectorAll fallbackPage isHeading = [] \<and>
   filter (\<lambda>f. category f = ''headings'') (issues (runA11yChecks fallbackPage)) = [] \<and>
   (\<exists>r. runA11yChecks_popup h2Page = Inr r \<and>
        filter (\<lambda>f. category f = ''headings'') (issues r) = []) \<and>
   (\<exists>r. runA11yChecks_popup (pageWith []) = Inr r \<and>
        filter (\<lambda>f. category f = ''headings'') (issues r) =
          [\<lparr>type = ''warning'', category = ''headings'', message = Text noHeadingsMessage,
            element = None, selector = None, details = None\<rparr>])"
proof -
  have a: "A11yRuleUtils h2Page = None" by code_simp
  have h1: "querySelectorAll h2Page (hasName ''h1'') = []" by code_simp
  have hs: "localNames (querySelectorAll h2Page isHeading) = [''h2'']"
    by code_simp
  then have hne: "querySelectorAll h2Page isHeading \<noteq> []"
    by (auto simp: localNames_def)
  have e: "querySelectorAll (pageWith []) isHeading = []" by code_simp
  have "\<not> isl (runA11yChecks_popup h2Page)" by code_simp
  then obtain r where r: "runA11yChecks_popup h2Page = Inr r"
    by (cases "runA11yChecks_popup h2Page") auto
  have "\<not> isl (runA11yChecks_popup (pageWith []))" by code_simp
  then obtain r' where r': "runA11yChecks_popup (pageWith []) = Inr r'"
    by (cases "runA11yChecks_popup (pageWith [])") auto
  have fb: "A11yRuleUtils fallbackPage = Some (Inr [])" by code_simp
  have fh: "querySelectorAll fallbackPage isHeading = []" by code_simp
  show ?thesis
    using headings_findings [of h2Page "[]" r] headings_findings [of "pageWith []" "[]" r']
          headings_findings [of fallbackPage "[]" r]
          a h1 hs hne e r r' fb fh
    by simp
qed

section \<open>Failures\<close>

lemma those_map_Some: "those (map Some xs) = Some xs"
  by (induction xs) simp_all

lemma those_None_iff: "(those xs = None) = (None \<in> set xs)"
  by (induction xs) (auto split: option.splits)

lemma those_append_Some:
  "those (xs @ map Some ys) = map_option (\<lambda>zs. zs @ ys) (those xs)"
proof (induction xs)
  case Nil
  show ?case by (simp add: those_map_Some)
next
  case (Cons x xs)
  then show ?case
    by (cases x; cases "those xs") simp_all
qed

lemma those_Some_append_Some:
  "those (map Some xs @ map Some ys) = Some (xs @ ys)"
  by (simp add: those_append_Some those_map_Some)

lemma entry_agrees: "runA11yChecks_entry s (ruleCallOf s) = Inr (runA11yChecks s)"
proof (cases "A11yRuleUtils s")
  case None
  then show ?thesis
    by (simp add: runA11yChecks_entry_def runA11yChecks_entry_try_def runA11yChecks_entry_catch_def
          ruleCallOf_def those_Some_append_Some runA11yChecks_def runA11yChecks_try_def Let_def)
next
  case (Some r)
  show ?thesis
  proof (cases r)
    case (Inl e)
    have "those [Some (pageIssue ''error'' ''system'' (''Check execution error: '' @ errorMessage e))]
            = Some [pageIssue ''error'' ''system'' (''Check execution error: '' @ errorMessage e)]"
      by simp
    with Some Inl show ?thesis
      by (simp add: runA11yChecks_entry_def runA11yChecks_entry_try_def runA11yChecks_entry_catch_def
            ruleCallOf_def runA11yChecks_def runA11yChecks_try_def Let_def)
  next
    case (Inr rs)
    have "those (map Some rs @ map Some (specializedChecks s)) = Some (rs @ specializedChecks s)"
      by (rule those_Some_append_Some)
    with Some Inr show ?thesis
      by (simp add: runA11yChecks_entry_def runA11yChecks_entry_try_def runA11yChecks_entry_catch_def
            ruleCallOf_def runA11yChecks_def runA11yChecks_try_def Let_def)
  qed
qed

lemma entry_returns_iff:
  "(\<exists>r. runA11yChecks_entry s m = Inr r) =
     (m \<noteq> CallThrows Nullish \<and> (\<forall>entries. m = CallReturns entries \<longrightarrow> None \<notin> set entries))"
proof (cases m)
  case NoModule
  then show ?thesis
    by (simp add: runA11yChecks_entry_def runA11yChecks_entry_try_def runA11yChecks_entry_catch_def
          those_Some_append_Some)
next
  case (CallThrows t)
  then show ?thesis
    by (cases t)
       (simp_all add: runA11yChecks_entry_def runA11yChecks_entry_try_def
          runA11yChecks_entry_catch_def)
next
  case (CallReturns entries)
  have "(those (entries @ map Some (specializedChecks s)) = None) = (None \<in> set entries)"
    by (simp add: those_append_Some those_None_iff)
  with CallReturns show ?thesis
    by (auto simp: runA11yChecks_entry_def runA11yChecks_entry_try_def
          runA11yChecks_entry_catch_def split: option.splits)
qed

lemma entry_report_shape:
  "runA11yChecks_entry s m = Inr r \<Longrightarrow>
   url r = href s \<and> timestamp r = now s \<and> summary r = summarize (issues r)"
  by (auto simp: runA11yChecks_entry_def split: sum.splits option.splits)

text \<open>
  Claim C6 as it is written does not hold: an exception raised inside the contrast check
  is caught there and logged, and no finding records it. On a document without a body,
  reading the descendants of the body throws, and the report has no finding at all.
\<close>

theorem exception_without_finding:
  "getTextElements_try bodylessPage = Inl (TypeError ''document.body is null'') \<and>
   issues (runA11yChecks bodylessPage) = []"
  by code_simp

text \<open>
  Claim C6, amended. With a rule module that throws nothing but values whose message can
  be read and returns nothing but finding objects, the entry point returns a report, the
  one of \<open>runA11yChecks\<close>; in general it returns exactly when the rule module does
  not throw null or undefined and returns no null or undefined entry, and it throws
  otherwise. Every report it returns has the location, the time and a summary of its
  findings. When the rule module throws, the report holds exactly one finding, of severity
  error and category system, with the message of the error; when the \<open>try\<close> block of the
  basic checks throws, the findings pushed before are followed by such a finding. An
  exception inside the contrast check leaves no finding: without a body the check returns
  nothing, and an element for which \<open>ColorUtils\<close> throws is skipped.
\<close>

theorem failures_and_the_report:
  "runA11yChecks_entry s (ruleCallOf s) = Inr (runA11yChecks s) \<and>
   ((\<exists>r'. runA11yChecks_entry s m = Inr r') =
      (m \<noteq> CallThrows Nullish \<and>
       (\<forall>entries. m = CallReturns entries \<longrightarrow> None \<notin> set entries))) \<and>
   (runA11yChecks_entry s m = Inr r \<longrightarrow>
      url r = href s \<and> timestamp r = now s \<and> summary r = summarize (issues r)) \<and>
   url (runA11yChecks s) = href s \<and>
   timestamp (runA11yChecks s) = now s \<and>
   summary (runA11yChecks s) = summarize (issues (runA11yChecks s)) \<and>
   (A11yRuleUtils s = Some (Inl e) \<longrightarrow>
      issues (runA11yChecks s) =
        [\<lparr>type = ''error'', category = ''system'',
          message = Text (''Check execution error: '' @ errorMessage e),
          element = None, selector = None, details = None\<rparr>]) \<and>
   (A11yRuleUtils s = None \<and> snd (runBasicChecks_try s) = Some e \<longrightarrow>
      issues (runA11yChecks s) =
        fst (runBasicChecks_try s) @
        [\<lparr>type = ''error'', category = ''system'',
          message = Text (''Basic check error: '' @ errorMessage e),
          element = None, selector = None, details = None\<rparr>] @
        specializedChecks s) \<and>
   (getTextElements_try s = Inl e \<longrightarrow> checkColorContrast s = []) \<and>
   (getContrastRatioForElement_try s n = Inl e \<longrightarrow> contrastIssue s n = [])"
proof -
  have agrees: "runA11yChecks_entry s (ruleCallOf s) = Inr (runA11yChecks s)"
    by (rule entry_agrees)
  have returns: "(\<exists>r'. runA11yChecks_entry s m = Inr r') =
      (m \<noteq> CallThrows Nullish \<and>
       (\<forall>entries. m = CallReturns entries \<longrightarrow> None \<notin> set entries))"
    by (rule entry_returns_iff)
  have formed: "runA11yChecks_entry s m = Inr r \<longrightarrow>
      url r = href s \<and> timestamp r = now s \<and> summary r = summarize (issues r)"
    using entry_report_shape by blast
  have shape: "url (runA11yChecks s) = href s \<and> timestamp (runA11yChecks s) = now s \<and>
               summary (runA11yChecks s) = summarize (issues (runA11yChecks s))"
    by (simp add: runA11yChecks_def Let_def)
  have caught: "A11yRuleUtils s = Some (Inl e) \<longrightarrow>
      issues (runA11yChecks s) =
        [\<lparr>type = ''error'', category = ''system'',
          message = Text (''Check execution error: '' @ errorMessage e),
          element = None, selector = None, details = None\<rparr>]"
    by (simp add: issues_cases pageIssue_def)
  have basic: "A11yRuleUtils s = None \<and> snd (runBasicChecks_try s) = Some e \<longrightarrow>
      issues (runA11yChecks s) =
        fst (runBasicChecks_try s) @
        [\<lparr>type = ''error'', category = ''system'',
          message = Text (''Basic check error: '' @ errorMessage e),
          element = None, selector = None, details = None\<rparr>] @
        specializedChecks s"
    by (simp add: issues_cases runBasicChecks_def pageIssue_def)
  have skipped: "getTextElements_try s = Inl e \<longrightarrow> checkColorContrast s = []"
    by (simp add: checkColorContrast_def contrastCandidates_def getTextElements_def)
  have absent: "getContrastRatioForElement_try s n = Inl e \<longrightarrow> contrastIssue s n = []"
    by (simp add: contrastIssue_def getContrastRatioForElement_def)
  from agrees returns formed shape caught basic skipped absent show ?thesis by blast
qed

theorem failures_and_the_report_witness:
  "runA11yChecks_entry h2Page (CallThrows Nullish)
     = Inl (TypeError ''Cannot read properties of null (reading message)'') \<and>
   runA11yChecks_entry h2Page (CallReturns [None])
     = Inl (TypeError ''Cannot read properties of null (reading type)'') \<and>
   ruleCallOf brokenPluginPage = CallThrows (Object (Thrown ''boom'')) \<and>
   runA11yChecks_entry brokenPluginPage (CallThrows (Object (Thrown ''boom'')))
     = Inr (runA11yChecks brokenPluginPage) \<and>
   A11yRuleUtils brokenPluginPage = Some (Inl (Thrown ''boom'')) \<and>
   issues (runA11yChecks brokenPluginPage) =
     [\<lparr>type = ''error'', category = ''system'',
       message = Text ''Check execution error: boom'',
       element = None, selector = None, details = None\<rparr>] \<and>
   A11yRuleUtils quoteIdPage = None \<and>
   snd (runBasicChecks_try quoteIdPage) = Some (SyntaxError ''not a valid selector'') \<and>
   map (\<lambda>f. (type f, category f, message f)) (issues (runA11yChecks quoteIdPage)) =
     [(''error'', ''system'', Text ''Basic check error: not a valid selector'')] \<and>
   getTextElements_try bodylessPage = Inl (TypeError ''document.body is null'') \<and>
   checkColorContrast bodylessPage = []"
proof -
  have a: "A11yRuleUtils brokenPluginPage = Some (Inl (Thrown ''boom''))" by code_simp
  have b: "A11yRuleUtils quoteIdPage = None" by code_simp
  have c: "snd (runBasicChecks_try quoteIdPage) = Some (SyntaxError ''not a valid selector'')"
    by code_simp
  have d: "fst (runBasicChecks_try quoteIdPage) = []" by code_simp
  have f: "specializedChecks quoteIdPage = []" by code_simp
  have g: "getTextElements_try bodylessPage = Inl (TypeError ''document.body is null'')"
    by code_simp
  have n1: "runA11yChecks_entry h2Page (CallThrows Nullish)
     = Inl (TypeError ''Cannot read properties of null (reading message)'')"
    by code_simp
  have n2: "runA11yChecks_entry h2Page (CallReturns [None])
     = Inl (TypeError ''Cannot read properties of null (reading type)'')"
    by code_simp
  have rc: "ruleCallOf brokenPluginPage = CallThrows (Object (Thrown ''boom''))"
    by (simp add: ruleCallOf_def a)
  show ?thesis
    using failures_and_the_report [of brokenPluginPage "CallThrows Nullish" _ "Thrown ''boom''"]
          failures_and_the_report [of quoteIdPage _ _ "SyntaxError ''not a valid selector''"]
          failures_and_the_report [of bodylessPage _ _ "TypeError ''document.body is null''"]
          a b c d f g n1 n2 rc
    by simp
qed

end
